theory Spec2Isabelle
  imports Complex_Main "HOL-Library.Sublist"
begin

section \<open>Python strings\<close>

text \<open>
  The service is Python 3: a \<^verbatim>\<open>str\<close> is a sequence of Unicode code points, and
  \<^verbatim>\<open>lower\<close>, \<^verbatim>\<open>strip\<close>, \<^verbatim>\<open>split\<close> and \<^verbatim>\<open>in\<close> work on code points. Four of the
  keywords of \<^verbatim>\<open>determine_transport_type\<close> hold code points above 255, so a string
  is modelled as a list of code points, not of bytes. \<open>ascii\<close> reads an ASCII literal.
\<close>

type_synonym codepoint = nat
type_synonym pystr = "codepoint list"

definition ascii :: "string \<Rightarrow> pystr" where
  "ascii s = map of_char s"

subsection \<open>\<^verbatim>\<open>str.lower\<close>\<close>

text \<open>
  On an ASCII code point \<^verbatim>\<open>str.lower\<close> maps \<open>A..Z\<close> to \<open>a..z\<close> and leaves the rest.
  On any other code point it consults the Unicode character database of the
  interpreter, which is no part of this repository: one code point may become several
  (U+0130), and U+03A3 depends on its neighbours. That table is the parameter
  \<open>U\<close>: it receives the code points before, the code points after, and the code point
  itself. Every theorem below holds for every \<open>U\<close>.
\<close>

type_synonym casemap = "pystr \<Rightarrow> pystr \<Rightarrow> codepoint \<Rightarrow> pystr"

definition ascii_lower :: "codepoint \<Rightarrow> codepoint" where
  "ascii_lower c = (if 65 \<le> c \<and> c \<le> 90 then c + 32 else c)"

fun lower_from :: "casemap \<Rightarrow> pystr \<Rightarrow> pystr \<Rightarrow> pystr" where
  "lower_from U pre [] = []"
| "lower_from U pre (c # cs) =
     (if c < 128 then [ascii_lower c] else U pre cs c) @ lower_from U (pre @ [c]) cs"

definition str_lower :: "casemap \<Rightarrow> pystr \<Rightarrow> pystr" where
  "str_lower U s = lower_from U [] s"

text \<open>A table that leaves every non-ASCII code point as it is; used to run examples.\<close>

definition keep_case :: casemap where
  "keep_case pre post c = [c]"

text \<open>
  A table that agrees with \<^verbatim>\<open>str.lower\<close> on every code point of the keywords of
  \<^verbatim>\<open>determine_transport_type\<close>: U+0178 has the lower-case form U+00FF, the other code
  points have none.
\<close>

definition keyword_case :: casemap where
  "keyword_case pre post c = (if c = 0x178 then [0xFF] else [c])"

subsection \<open>\<^verbatim>\<open>str.strip\<close>\<close>

text \<open>The code points for which \<^verbatim>\<open>str.isspace\<close> holds; \<^verbatim>\<open>strip()\<close> removes them at both ends.\<close>

definition is_space :: "codepoint \<Rightarrow> bool" where
  "is_space c \<longleftrightarrow>
     (9 \<le> c \<and> c \<le> 13) \<or> (28 \<le> c \<and> c \<le> 32) \<or> c = 0x85 \<or> c = 0xA0 \<or> c = 0x1680 \<or>
     (0x2000 \<le> c \<and> c \<le> 0x200A) \<or> c = 0x2028 \<or> c = 0x2029 \<or> c = 0x202F \<or>
     c = 0x205F \<or> c = 0x3000"

definition str_strip :: "pystr \<Rightarrow> pystr" where
  "str_strip s = rev (dropWhile is_space (rev (dropWhile is_space s)))"

subsection \<open>\<^verbatim>\<open>in\<close> and \<^verbatim>\<open>str.split\<close>\<close>

text \<open>\<open>str_contains t k\<close> is \<^verbatim>\<open>k in t\<close>: \<open>k\<close> occurs in \<open>t\<close> as a contiguous run.\<close>

fun str_contains :: "pystr \<Rightarrow> pystr \<Rightarrow> bool" where
  "str_contains [] k = (k = [])"
| "str_contains (c # cs) k = (prefix k (c # cs) \<or> str_contains cs k)"

definition comma :: codepoint where
  "comma = 44"

text \<open>
  \<^verbatim>\<open>s.split(sep)\<close> for a separator of one code point: the pieces between the
  separators, empty pieces included; never the empty list.
\<close>

fun str_split :: "codepoint \<Rightarrow> pystr \<Rightarrow> pystr list" where
  "str_split sep [] = [[]]"
| "str_split sep (c # cs) =
     (if c = sep then [] # str_split sep cs
      else (case str_split sep cs of
              [] \<Rightarrow> [[c]]
            | p # ps \<Rightarrow> (c # p) # ps))"

text \<open>\<^verbatim>\<open>s.split(sep, 1)\<close>: at most one split, at the first separator.\<close>

definition str_split1 :: "codepoint \<Rightarrow> pystr \<Rightarrow> pystr list" where
  "str_split1 sep s =
     (if sep \<in> set s then [takeWhile (\<lambda>c. c \<noteq> sep) s, tl (dropWhile (\<lambda>c. c \<noteq> sep) s)]
      else [s])"

section \<open>Helper functions of \<^verbatim>\<open>backend/api.py\<close>\<close>

datatype transport = Bus | Metro | Train | Auto | Taxi

text \<open>The string each transport type stands for in the source.\<close>

fun transport_name :: "transport \<Rightarrow> pystr" where
  "transport_name Bus = ascii ''bus''"
| "transport_name Metro = ascii ''metro''"
| "transport_name Train = ascii ''train''"
| "transport_name Auto = ascii ''auto''"
| "transport_name Taxi = ascii ''taxi''"

text \<open>
  The keyword lists, in the order of the source. The second keyword of each list is
  written in the source file with code points outside ASCII; it is given here code
  point by code point, as the interpreter reads the file.
\<close>

definition metro_keywords :: "pystr list" where
  "metro_keywords =
     [ascii ''metro'',
      [0xE0, 0xA4, 0xAE, 0xE0, 0xA5, 0x2021, 0xE0, 0xA4, 0x178, 0xE0, 0xA5, 0xE0, 0xA4, 0xB0,
       0xE0, 0xA5, 0x2039],
      ascii ''subway'', ascii ''dmrc'']"

definition train_keywords :: "pystr list" where
  "train_keywords =
     [ascii ''train'',
      [0xE0, 0xA4, 0x178, 0xE0, 0xA5, 0xE0, 0xA4, 0xB0, 0xE0, 0xA5, 0x2021, 0xE0, 0xA4, 0xA8],
      ascii ''railway'', ascii ''irctc'', ascii ''local train'']"

definition auto_keywords :: "pystr list" where
  "auto_keywords =
     [ascii ''auto'',
      [0xE0, 0xA4, 0x2018, 0xE0, 0xA4, 0x178, 0xE0, 0xA5, 0x2039],
      ascii ''rickshaw'', ascii ''three wheeler'']"

definition taxi_keywords :: "pystr list" where
  "taxi_keywords =
     [ascii ''taxi'',
      [0xE0, 0xA4, 0x178, 0xE0, 0xA5, 0x2C6, 0xE0, 0xA4, 0x2022, 0xE0, 0xA5, 0xE0, 0xA4, 0xB8,
       0xE0, 0xA5, 0x20AC],
      ascii ''cab'', ascii ''ola'', ascii ''uber'']"

text \<open>\<^verbatim>\<open>any(keyword in text for keyword in ks)\<close>\<close>

definition any_keyword_in :: "pystr list \<Rightarrow> pystr \<Rightarrow> bool" where
  "any_keyword_in ks t = list_ex (\<lambda>keyword. str_contains t keyword) ks"

definition determine_transport_type :: "casemap \<Rightarrow> pystr \<Rightarrow> transport" where
  "determine_transport_type U text0 =
     (let t = str_lower U text0 in
      if any_keyword_in metro_keywords t then Metro
      else if any_keyword_in train_keywords t then Train
      else if any_keyword_in auto_keywords t then Auto
      else if any_keyword_in taxi_keywords t then Taxi
      else Bus)"

text \<open>
  \<^verbatim>\<open>{'positive': 0.5, 'negative': -0.5, 'neutral': 0}.get(label.lower(), 0)\<close>.
  The three values are exact in binary floating point; they are rationals here.
\<close>

definition sentiment_scores :: "(pystr \<times> rat) list" where
  "sentiment_scores =
     [(ascii ''positive'', 1 / 2), (ascii ''negative'', - (1 / 2)), (ascii ''neutral'', 0)]"

definition determine_sentiment_score :: "casemap \<Rightarrow> pystr \<Rightarrow> rat" where
  "determine_sentiment_score U label =
     (case map_of sentiment_scores (str_lower U label) of
        None \<Rightarrow> 0
      | Some v \<Rightarrow> v)"

text \<open>
  What the source can raise is a value of the model: an index out of range, an
  unpacking of the wrong number of values, a division by zero.
\<close>

datatype error = IndexError | ValueError | ZeroDivisionError

text \<open>\<^verbatim>\<open>xs[-1]\<close>\<close>

definition index_last :: "'a list \<Rightarrow> error + 'a" where
  "index_last xs = (case xs of [] \<Rightarrow> Inl IndexError | _ # _ \<Rightarrow> Inr (last xs))"

definition extract_state_from_region :: "pystr \<Rightarrow> error + pystr" where
  "extract_state_from_region region =
     (if str_contains region (ascii '','')
      then (case index_last (str_split comma region) of
              Inl e \<Rightarrow> Inl e
            | Inr piece \<Rightarrow> Inr (str_strip piece))
      else Inr (str_strip region))"

text \<open>
  Words of the claims. \<open>occurs_in k t\<close>: \<open>k\<close> is a substring of \<open>t\<close>.
  \<open>casing_of k m\<close>: \<open>m\<close> is the ASCII string \<open>k\<close> with each letter in either case.
\<close>

definition occurs_in :: "pystr \<Rightarrow> pystr \<Rightarrow> bool" where
  "occurs_in k t \<longleftrightarrow> (\<exists>p s. t = p @ k @ s)"

definition casing_of :: "pystr \<Rightarrow> pystr \<Rightarrow> bool" where
  "casing_of k m \<longleftrightarrow> list_all2 (\<lambda>d c. c < 128 \<and> ascii_lower c = d) k m"

section \<open>Rows of the data access layer\<close>

text \<open>
  \<^verbatim>\<open>db.get_recent_tweets\<close> and \<^verbatim>\<open>db.get_state_summary\<close> return dictionaries. The keys
  the handlers read are the fields below; a field is \<open>None\<close> when the key is absent, and
  \<open>dict_get field dflt\<close> is \<^verbatim>\<open>row.get(key, default)\<close>. A key that is present holds a
  value of the type of its column: text, an integer count, a time stamp of type \<open>'t\<close>.
\<close>

record 't tweet_row =
  row_id :: "int option"
  row_text :: "pystr option"
  row_region :: "pystr option"
  row_sentiment :: "pystr option"
  row_created_at :: "'t option"

record summary_row =
  sum_region :: "pystr option"
  sum_total_messages :: "int option"
  sum_positive_count :: "int option"
  sum_negative_count :: "int option"
  sum_neutral_count :: "int option"

definition dict_get :: "'a option \<Rightarrow> 'a \<Rightarrow> 'a" where
  "dict_get field dflt = (case field of None \<Rightarrow> dflt | Some v \<Rightarrow> v)"

section \<open>\<^verbatim>\<open>/api/tweets\<close>\<close>

record sentiment_info =
  polarity :: rat
  label :: pystr
  confidence :: rat

record enriched_tweet =
  tw_id :: "int option"
  tw_text :: pystr
  tw_timestamp :: pystr
  tw_location :: pystr
  tw_state :: pystr
  tw_city :: pystr
  tw_transportType :: transport
  tw_sentiment :: sentiment_info

text \<open>\<^verbatim>\<open>city, state = parts\<close>: unpacking raises unless there are exactly two values.\<close>

definition unpack2 :: "'a list \<Rightarrow> error + ('a \<times> 'a)" where
  "unpack2 parts = (case parts of [a, b] \<Rightarrow> Inr (a, b) | _ \<Rightarrow> Inl ValueError)"

text \<open>The \<^verbatim>\<open>if\<close> statement of \<^verbatim>\<open>get_tweets\<close> that sets \<^verbatim>\<open>city\<close> and \<^verbatim>\<open>state\<close>.\<close>

definition city_and_state :: "pystr \<Rightarrow> error + (pystr \<times> pystr)" where
  "city_and_state region =
     (if str_contains region (ascii '','')
      then unpack2 (map str_strip (str_split1 comma region))
      else Inr (str_strip region, str_strip region))"

text \<open>
  The body of the loop of \<^verbatim>\<open>get_tweets\<close> for one row. \<open>now\<close> is what
  \<^verbatim>\<open>datetime.datetime.now()\<close> returns when the row is read and \<open>isoformat\<close> is the
  method of the time stamp; both belong to the interpreter. The literal \<^verbatim>\<open>0.85\<close> is
  the rational \<open>85 / 100\<close>.
\<close>

definition enrich ::
  "casemap \<Rightarrow> ('t \<Rightarrow> pystr) \<Rightarrow> 't \<Rightarrow> 't tweet_row \<Rightarrow> error + enriched_tweet" where
  "enrich U isoformat now row =
     (let text0 = dict_get (row_text row) [];
          region = dict_get (row_region row) (ascii ''India'');
          sentiment_label = dict_get (row_sentiment row) (ascii ''neutral'');
          created_at = dict_get (row_created_at row) now;
          transport_type = determine_transport_type U text0
      in case city_and_state region of
           Inl e \<Rightarrow> Inl e
         | Inr (city, state) \<Rightarrow>
             Inr \<lparr>tw_id = row_id row,
                  tw_text = text0,
                  tw_timestamp = isoformat created_at,
                  tw_location = region,
                  tw_state = state,
                  tw_city = city,
                  tw_transportType = transport_type,
                  tw_sentiment =
                    \<lparr>polarity = determine_sentiment_score U sentiment_label,
                     label = sentiment_label,
                     confidence = 85 / 100\<rparr>\<rparr>)"

text \<open>
  The loop over the rows: the first row that raises ends the request (the handler
  answers 500). \<open>clock i\<close> is the time read at row number \<open>i\<close>.
\<close>

fun enrich_rows ::
  "casemap \<Rightarrow> ('t \<Rightarrow> pystr) \<Rightarrow> (nat \<Rightarrow> 't) \<Rightarrow> nat \<Rightarrow> 't tweet_row list
     \<Rightarrow> error + enriched_tweet list" where
  "enrich_rows U isoformat clock i [] = Inr []"
| "enrich_rows U isoformat clock i (row # rows) =
     (case enrich U isoformat (clock i) row of
        Inl e \<Rightarrow> Inl e
      | Inr tw \<Rightarrow>
          (case enrich_rows U isoformat clock (Suc i) rows of
             Inl e \<Rightarrow> Inl e
           | Inr tws \<Rightarrow> Inr (tw # tws)))"

definition get_tweets ::
  "casemap \<Rightarrow> ('t \<Rightarrow> pystr) \<Rightarrow> (nat \<Rightarrow> 't) \<Rightarrow> 't tweet_row list \<Rightarrow> error + enriched_tweet list" where
  "get_tweets U isoformat clock rows = enrich_rows U isoformat clock 0 rows"

section \<open>\<^verbatim>\<open>/api/states\<close>\<close>

record breakdown =
  tb_bus :: int
  tb_metro :: int
  tb_train :: int
  tb_auto :: int
  tb_taxi :: int

record bucket =
  total_messages :: int
  positive_count :: int
  negative_count :: int
  neutral_count :: int
  transport_breakdown :: breakdown

record sentiment_breakdown =
  positive :: int
  negative :: int
  neutral :: int

record state_report =
  state :: pystr
  sentimentScore :: rat
  totalMessages :: int
  transportBreakdown :: breakdown
  sentimentBreakdown :: sentiment_breakdown

text \<open>The value the \<^verbatim>\<open>defaultdict\<close> creates for a new state.\<close>

definition default_bucket :: bucket where
  "default_bucket =
     \<lparr>total_messages = 0, positive_count = 0, negative_count = 0, neutral_count = 0,
      transport_breakdown = \<lparr>tb_bus = 0, tb_metro = 0, tb_train = 0, tb_auto = 0, tb_taxi = 0\<rparr>\<rparr>"

text \<open>\<^verbatim>\<open>breakdown[transport] += 1\<close>\<close>

fun increment :: "transport \<Rightarrow> breakdown \<Rightarrow> breakdown" where
  "increment Bus tb = tb\<lparr>tb_bus := tb_bus tb + 1\<rparr>"
| "increment Metro tb = tb\<lparr>tb_metro := tb_metro tb + 1\<rparr>"
| "increment Train tb = tb\<lparr>tb_train := tb_train tb + 1\<rparr>"
| "increment Auto tb = tb\<lparr>tb_auto := tb_auto tb + 1\<rparr>"
| "increment Taxi tb = tb\<lparr>tb_taxi := tb_taxi tb + 1\<rparr>"

text \<open>
  \<^verbatim>\<open>state_data\<close> is a dictionary that keeps its keys in the order of their insertion:
  a list of pairs with no key twice. \<open>state_data_upd k f\<close> is an update
  \<^verbatim>\<open>state_data[k][...] += ...\<close>: the bucket of \<open>k\<close> is changed where it stands, and a key
  not yet present is appended with the default bucket, changed.
\<close>

type_synonym state_data = "(pystr \<times> bucket) list"

fun state_data_upd :: "pystr \<Rightarrow> (bucket \<Rightarrow> bucket) \<Rightarrow> state_data \<Rightarrow> state_data" where
  "state_data_upd k f [] = [(k, f default_bucket)]"
| "state_data_upd k f ((k', b) # rest) =
     (if k' = k then (k', f b) # rest else (k', b) # state_data_upd k f rest)"

text \<open>A \<^verbatim>\<open>for\<close> loop over a list whose body may raise.\<close>

fun for_each :: "('s \<Rightarrow> 'a \<Rightarrow> error + 's) \<Rightarrow> 's \<Rightarrow> 'a list \<Rightarrow> error + 's" where
  "for_each body s [] = Inr s"
| "for_each body s (x # xs) =
     (case body s x of Inl e \<Rightarrow> Inl e | Inr s' \<Rightarrow> for_each body s' xs)"

text \<open>The body of the loop over \<^verbatim>\<open>all_tweets\<close>.\<close>

definition count_tweet :: "casemap \<Rightarrow> state_data \<Rightarrow> 't tweet_row \<Rightarrow> error + state_data" where
  "count_tweet U state_data tweet =
     (case extract_state_from_region (dict_get (row_region tweet) (ascii ''Unknown'')) of
        Inl e \<Rightarrow> Inl e
      | Inr st \<Rightarrow>
          (let transport = determine_transport_type U (dict_get (row_text tweet) [])
           in Inr (state_data_upd st
                 (\<lambda>b. b\<lparr>transport_breakdown := increment transport (transport_breakdown b)\<rparr>)
                 state_data)))"

text \<open>The body of the loop over \<^verbatim>\<open>rows\<close>: four updates of the bucket of the state.\<close>

definition add_summary :: "state_data \<Rightarrow> summary_row \<Rightarrow> error + state_data" where
  "add_summary state_data row =
     (case extract_state_from_region (dict_get (sum_region row) (ascii ''Unknown'')) of
        Inl e \<Rightarrow> Inl e
      | Inr st \<Rightarrow>
          Inr (state_data_upd st
                 (\<lambda>b. b\<lparr>neutral_count := neutral_count b + dict_get (sum_neutral_count row) 0\<rparr>)
              (state_data_upd st
                 (\<lambda>b. b\<lparr>negative_count := negative_count b + dict_get (sum_negative_count row) 0\<rparr>)
              (state_data_upd st
                 (\<lambda>b. b\<lparr>positive_count := positive_count b + dict_get (sum_positive_count row) 0\<rparr>)
              (state_data_upd st
                 (\<lambda>b. b\<lparr>total_messages := total_messages b + dict_get (sum_total_messages row) 0\<rparr>)
                 state_data)))))"

text \<open>
  \<^verbatim>\<open>a / b\<close> on integers raises when \<open>b\<close> is zero. The quotient is exact here; the
  interpreter rounds it to the nearest double.
\<close>

definition truediv :: "int \<Rightarrow> int \<Rightarrow> error + rat" where
  "truediv a b = (if b = 0 then Inl ZeroDivisionError else Inr (of_int a / of_int b))"

text \<open>The last loop, over \<^verbatim>\<open>state_data.items()\<close>.\<close>

fun make_reports :: "state_data \<Rightarrow> error + state_report list" where
  "make_reports [] = Inr []"
| "make_reports ((st, data) # rest) =
     (if total_messages data > 0
      then (case truediv (positive_count data - negative_count data) (total_messages data) of
              Inl e \<Rightarrow> Inl e
            | Inr sentiment_score \<Rightarrow>
                (case make_reports rest of
                   Inl e \<Rightarrow> Inl e
                 | Inr result \<Rightarrow>
                     Inr (\<lparr>state = st,
                           sentimentScore = sentiment_score,
                           totalMessages = total_messages data,
                           transportBreakdown = transport_breakdown data,
                           sentimentBreakdown =
                             \<lparr>positive = positive_count data,
                              negative = negative_count data,
                              neutral = neutral_count data\<rparr>\<rparr> # result)))
      else make_reports rest)"

text \<open>
  The handler, from the two lists the data access layer returned: \<open>all_tweets\<close> from
  \<^verbatim>\<open>get_recent_tweets\<close> and \<open>rows\<close> from \<^verbatim>\<open>get_state_summary\<close>. \<^verbatim>\<open>state_data\<close> is
  created empty in every call.
\<close>

definition get_states_summary ::
  "casemap \<Rightarrow> 't tweet_row list \<Rightarrow> summary_row list \<Rightarrow> error + state_report list" where
  "get_states_summary U all_tweets rows =
     (case for_each (count_tweet U) [] all_tweets of
        Inl e \<Rightarrow> Inl e
      | Inr counted \<Rightarrow>
          (case for_each add_summary counted rows of
             Inl e \<Rightarrow> Inl e
           | Inr state_data \<Rightarrow> make_reports state_data))"

section \<open>Words of the claims about the aggregation\<close>

text \<open>The state under which a record and a summary row are counted.\<close>

definition region_state :: "pystr \<Rightarrow> pystr" where
  "region_state region = (case extract_state_from_region region of Inl e \<Rightarrow> [] | Inr s \<Rightarrow> s)"

definition tweet_state :: "'t tweet_row \<Rightarrow> pystr" where
  "tweet_state tweet = region_state (dict_get (row_region tweet) (ascii ''Unknown''))"

definition summary_state :: "summary_row \<Rightarrow> pystr" where
  "summary_state row = region_state (dict_get (sum_region row) (ascii ''Unknown''))"

text \<open>The counts of a state accumulated over the summary rows; a missing count is 0.\<close>

definition accumulated :: "(summary_row \<Rightarrow> int option) \<Rightarrow> summary_row list \<Rightarrow> pystr \<Rightarrow> int" where
  "accumulated field rows s =
     sum_list (map (\<lambda>row. dict_get (field row) 0) (filter (\<lambda>row. summary_state row = s) rows))"

text \<open>The number of records of a state that are classified as a transport type.\<close>

definition transport_count :: "casemap \<Rightarrow> 't tweet_row list \<Rightarrow> pystr \<Rightarrow> transport \<Rightarrow> int" where
  "transport_count U tweets s t =
     int (length (filter (\<lambda>tweet. tweet_state tweet = s \<and>
            determine_transport_type U (dict_get (row_text tweet) []) = t) tweets))"

text \<open>The elements of a list in the order of their first appearance.\<close>

fun first_seen :: "'a list \<Rightarrow> 'a list" where
  "first_seen [] = []"
| "first_seen (x # xs) = x # filter (\<lambda>y. y \<noteq> x) (first_seen xs)"

text \<open>The report a state gets from its accumulated counts.\<close>

definition report_of :: "casemap \<Rightarrow> 't tweet_row list \<Rightarrow> summary_row list \<Rightarrow> pystr \<Rightarrow> state_report" where
  "report_of U tweets rows s =
     \<lparr>state = s,
      sentimentScore =
        of_int (accumulated sum_positive_count rows s - accumulated sum_negative_count rows s)
          / of_int (accumulated sum_total_messages rows s),
      totalMessages = accumulated sum_total_messages rows s,
      transportBreakdown =
        \<lparr>tb_bus = transport_count U tweets s Bus,
         tb_metro = transport_count U tweets s Metro,
         tb_train = transport_count U tweets s Train,
         tb_auto = transport_count U tweets s Auto,
         tb_taxi = transport_count U tweets s Taxi\<rparr>,
      sentimentBreakdown =
        \<lparr>positive = accumulated sum_positive_count rows s,
         negative = accumulated sum_negative_count rows s,
         neutral = accumulated sum_neutral_count rows s\<rparr>\<rparr>"

text \<open>A record and a summary row with every missing field of the aggregation filled in.\<close>

definition fill_tweet :: "'t tweet_row \<Rightarrow> 't tweet_row" where
  "fill_tweet tweet =
     tweet\<lparr>row_text := Some (dict_get (row_text tweet) []),
           row_region := Some (dict_get (row_region tweet) (ascii ''Unknown''))\<rparr>"

definition fill_summary :: "summary_row \<Rightarrow> summary_row" where
  "fill_summary row =
     \<lparr>sum_region = Some (dict_get (sum_region row) (ascii ''Unknown'')),
      sum_total_messages = Some (dict_get (sum_total_messages row) 0),
      sum_positive_count = Some (dict_get (sum_positive_count row) 0),
      sum_negative_count = Some (dict_get (sum_negative_count row) 0),
      sum_neutral_count = Some (dict_get (sum_neutral_count row) 0)\<rparr>"

section \<open>Notions used in the proofs about the aggregation\<close>

text \<open>The bucket a key has in \<^verbatim>\<open>state_data\<close>; the default bucket when the key is absent.\<close>

definition bucket_at :: "state_data \<Rightarrow> pystr \<Rightarrow> bucket" where
  "bucket_at sd k = (case map_of sd k of None \<Rightarrow> default_bucket | Some b \<Rightarrow> b)"

text \<open>The keys after an update of key \<open>k\<close>.\<close>

definition add_key :: "'a list \<Rightarrow> 'a \<Rightarrow> 'a list" where
  "add_key ks k = (if k \<in> set ks then ks else ks @ [k])"

text \<open>The change the loop over \<^verbatim>\<open>all_tweets\<close> makes to a bucket.\<close>

definition count_transport :: "transport \<Rightarrow> bucket \<Rightarrow> bucket" where
  "count_transport t b = b\<lparr>transport_breakdown := increment t (transport_breakdown b)\<rparr>"

text \<open>The change the four updates of the loop over \<^verbatim>\<open>rows\<close> make to a bucket.\<close>

definition add_counts :: "summary_row \<Rightarrow> bucket \<Rightarrow> bucket" where
  "add_counts row b =
     b\<lparr>total_messages := total_messages b + dict_get (sum_total_messages row) 0,
       positive_count := positive_count b + dict_get (sum_positive_count row) 0,
       negative_count := negative_count b + dict_get (sum_negative_count row) 0,
       neutral_count := neutral_count b + dict_get (sum_neutral_count row) 0\<rparr>"

text \<open>The report built from a key and its bucket.\<close>

definition bucket_report :: "pystr \<times> bucket \<Rightarrow> state_report" where
  "bucket_report kb =
     \<lparr>state = fst kb,
      sentimentScore =
        of_int (positive_count (snd kb) - negative_count (snd kb)) / of_int (total_messages (snd kb)),
      totalMessages = total_messages (snd kb),
      transportBreakdown = transport_breakdown (snd kb),
      sentimentBreakdown =
        \<lparr>positive = positive_count (snd kb),
         negative = negative_count (snd kb),
         neutral = neutral_count (snd kb)\<rparr>\<rparr>"

text \<open>\<^verbatim>\<open>state_data\<close> after the loop over \<^verbatim>\<open>all_tweets\<close>.\<close>

definition counted :: "casemap \<Rightarrow> 't tweet_row list \<Rightarrow> state_data" where
  "counted U tweets =
     foldl (\<lambda>sd tweet. state_data_upd (tweet_state tweet)
              (count_transport (determine_transport_type U (dict_get (row_text tweet) []))) sd)
       [] tweets"

text \<open>\<^verbatim>\<open>state_data\<close> after the loop over \<^verbatim>\<open>rows\<close>.\<close>

definition summed :: "casemap \<Rightarrow> 't tweet_row list \<Rightarrow> summary_row list \<Rightarrow> state_data" where
  "summed U tweets rows =
     foldl (\<lambda>sd row. state_data_upd (summary_state row) (add_counts row) sd)
       (counted U tweets) rows"

section \<open>Strings: lemmas\<close>

lemma str_contains_iff: "str_contains t k \<longleftrightarrow> occurs_in k t"
proof (induction t)
  case Nil
  show ?case by (simp add: occurs_in_def)
next
  case (Cons c cs)
  have "occurs_in k (c # cs) \<longleftrightarrow> prefix k (c # cs) \<or> occurs_in k cs"
  proof
    assume "occurs_in k (c # cs)"
    then obtain p s where ps: "c # cs = p @ k @ s" by (auto simp: occurs_in_def)
    show "prefix k (c # cs) \<or> occurs_in k cs"
    proof (cases p)
      case Nil
      with ps show ?thesis by (simp add: prefix_def)
    next
      case (Cons a p')
      with ps have "cs = p' @ k @ s" by simp
      then show ?thesis by (auto simp: occurs_in_def)
    qed
  next
    assume "prefix k (c # cs) \<or> occurs_in k cs"
    then show "occurs_in k (c # cs)"
    proof
      assume "prefix k (c # cs)"
      then obtain s where "c # cs = k @ s" by (auto simp: prefix_def)
      then have "c # cs = [] @ k @ s" by simp
      then show ?thesis unfolding occurs_in_def by blast
    next
      assume "occurs_in k cs"
      then obtain p s where "cs = p @ k @ s" by (auto simp: occurs_in_def)
      then have "c # cs = (c # p) @ k @ s" by simp
      then show ?thesis unfolding occurs_in_def by blast
    qed
  qed
  with Cons show ?case by simp
qed

lemma str_contains_single: "str_contains t [c] \<longleftrightarrow> c \<in> set t"
  by (induction t) auto

lemma comma_literal: "ascii '','' = [comma]"
  by (simp add: ascii_def comma_def)

lemma str_split_not_Nil: "str_split sep s \<noteq> []"
  by (induction s) (auto split: list.splits)

lemma str_split_no_sep: "sep \<notin> set s \<Longrightarrow> str_split sep s = [s]"
  by (induction s) auto

lemma str_split_last_piece:
  "sep \<notin> set b \<Longrightarrow> \<exists>X. X \<noteq> [] \<and> str_split sep (a @ sep # b) = X @ [b]"
proof (induction a)
  case Nil
  then have "str_split sep ([] @ sep # b) = [[]] @ [b]"
    by (simp add: str_split_no_sep)
  then show ?case by blast
next
  case (Cons c a)
  then obtain X where X: "X \<noteq> []" "str_split sep (a @ sep # b) = X @ [b]" by blast
  then obtain x X' where xX: "X = x # X'" by (cases X) auto
  show ?case
  proof (cases "c = sep")
    case True
    with X have "str_split sep ((c # a) @ sep # b) = ([] # X) @ [b]" by simp
    then show ?thesis by blast
  next
    case False
    with X xX have "str_split sep ((c # a) @ sep # b) = ((c # x) # X') @ [b]" by simp
    then show ?thesis by blast
  qed
qed

lemma index_last_str_split:
  "sep \<notin> set b \<Longrightarrow> index_last (str_split sep (a @ sep # b)) = Inr b"
proof -
  assume "sep \<notin> set b"
  then obtain X where "X \<noteq> []" "str_split sep (a @ sep # b) = X @ [b]"
    using str_split_last_piece by blast
  then show ?thesis by (cases X) (auto simp: index_last_def)
qed

lemma lower_from_ascii:
  "\<forall>c\<in>set m. c < 128 \<Longrightarrow>
   lower_from U pre (m @ rest) = map ascii_lower m @ lower_from U (pre @ m) rest"
  by (induction m arbitrary: pre) auto

lemma lower_from_append:
  "\<exists>A. lower_from U pre (xs @ ys) = A @ lower_from U (pre @ xs) ys"
proof (induction xs arbitrary: pre)
  case Nil
  show ?case by simp
next
  case (Cons c xs)
  from Cons[of "pre @ [c]"] obtain A where
    "lower_from U (pre @ [c]) (xs @ ys) = A @ lower_from U ((pre @ [c]) @ xs) ys" by blast
  then have "lower_from U pre ((c # xs) @ ys) =
      ((if c < 128 then [ascii_lower c] else U pre (xs @ ys) c) @ A) @ lower_from U (pre @ c # xs) ys"
    by simp
  then show ?case by blast
qed

lemma casing_of_lower: "casing_of k m \<Longrightarrow> (\<forall>c\<in>set m. c < 128) \<and> map ascii_lower m = k"
  unfolding casing_of_def by (induction k m rule: list_all2_induct) auto

lemma str_lower_casing: "casing_of k m \<Longrightarrow> str_lower U m = k"
  using lower_from_ascii[of m U "[]" "[]"] casing_of_lower[of k m] by (simp add: str_lower_def)

lemma str_lower_occurs:
  assumes "casing_of k m"
  shows "occurs_in k (str_lower U (p @ m @ s))"
proof -
  obtain A where A: "lower_from U [] (p @ m @ s) = A @ lower_from U ([] @ p) (m @ s)"
    using lower_from_append by blast
  from assms have "lower_from U p (m @ s) = k @ lower_from U (p @ m) s"
    using lower_from_ascii[of m U p s] casing_of_lower[of k m] by simp
  with A have "str_lower U (p @ m @ s) = A @ k @ lower_from U (p @ m) s"
    by (simp add: str_lower_def)
  then show ?thesis unfolding occurs_in_def by blast
qed

section \<open>The helper functions: claims\<close>

text \<open>
  Claim C4. \<^verbatim>\<open>extract_state_from_region\<close> raises on no region string. When the region
  holds a comma the result is the trimmed text after the last comma, otherwise the
  trimmed region. "Mumbai, Maharashtra" gives "Maharashtra", "Delhi" gives "Delhi",
  "A, B, C" gives "C", and the empty string gives the empty string.
\<close>

theorem extract_state_from_region_last_comma:
  "(\<forall>a b. comma \<notin> set b \<longrightarrow> extract_state_from_region (a @ comma # b) = Inr (str_strip b)) \<and>
   (\<forall>r. comma \<notin> set r \<longrightarrow> extract_state_from_region r = Inr (str_strip r)) \<and>
   (\<forall>r. \<exists>s. extract_state_from_region r = Inr s) \<and>
   extract_state_from_region (ascii ''Mumbai, Maharashtra'') = Inr (ascii ''Maharashtra'') \<and>
   extract_state_from_region (ascii ''Delhi'') = Inr (ascii ''Delhi'') \<and>
   extract_state_from_region (ascii ''A, B, C'') = Inr (ascii ''C'') \<and>
   extract_state_from_region [] = Inr []"
proof (intro conjI allI impI)
  fix a b :: pystr
  assume "comma \<notin> set b"
  then show "extract_state_from_region (a @ comma # b) = Inr (str_strip b)"
    by (simp add: extract_state_from_region_def comma_literal str_contains_single
        index_last_str_split)
next
  fix r :: pystr
  assume "comma \<notin> set r"
  then show "extract_state_from_region r = Inr (str_strip r)"
    by (simp add: extract_state_from_region_def comma_literal str_contains_single)
next
  fix r :: pystr
  show "\<exists>s. extract_state_from_region r = Inr s"
    by (cases "str_split comma r")
      (auto simp: extract_state_from_region_def index_last_def str_split_not_Nil)
next
  show "extract_state_from_region (ascii ''Mumbai, Maharashtra'') = Inr (ascii ''Maharashtra'')"
    by (simp add: extract_state_from_region_def index_last_def ascii_def comma_def
        str_strip_def is_space_def)
next
  show "extract_state_from_region (ascii ''Delhi'') = Inr (ascii ''Delhi'')"
    by (simp add: extract_state_from_region_def index_last_def ascii_def comma_def
        str_strip_def is_space_def)
next
  show "extract_state_from_region (ascii ''A, B, C'') = Inr (ascii ''C'')"
    by (simp add: extract_state_from_region_def index_last_def ascii_def comma_def
        str_strip_def is_space_def)
next
  show "extract_state_from_region [] = Inr []"
    by (simp add: extract_state_from_region_def ascii_def str_strip_def)
qed

text \<open>The region "Mumbai, Thane, Maharashtra " and the comma-free region " Goa".\<close>

theorem extract_state_from_region_last_comma_witness:
  "comma \<notin> set (ascii '' Maharashtra '') \<and>
   extract_state_from_region (ascii ''Mumbai, Thane'' @ comma # ascii '' Maharashtra '')
     = Inr (ascii ''Maharashtra'') \<and>
   comma \<notin> set (ascii '' Goa'') \<and>
   extract_state_from_region (ascii '' Goa'') = Inr (ascii ''Goa'')"
proof -
  have h1: "comma \<notin> set (ascii '' Maharashtra '')"
    by (simp add: ascii_def comma_def)
  have h2: "comma \<notin> set (ascii '' Goa'')"
    by (simp add: ascii_def comma_def)
  have s1: "str_strip (ascii '' Maharashtra '') = ascii ''Maharashtra''"
    by (simp add: ascii_def str_strip_def is_space_def)
  have s2: "str_strip (ascii '' Goa'') = ascii ''Goa''"
    by (simp add: ascii_def str_strip_def is_space_def)
  from extract_state_from_region_last_comma h1 h2 s1 s2 show ?thesis
    by metis
qed

lemma any_keyword_in_iff:
  "any_keyword_in ks t \<longleftrightarrow> (\<exists>k\<in>set ks. occurs_in k t)"
  by (simp add: any_keyword_in_def list_ex_iff str_contains_iff)

text \<open>
  The chain of tests of \<^verbatim>\<open>determine_transport_type\<close> in terms of occurrence in the
  lower-cased text. A run of ASCII code points that is a casing of \<open>k\<close> makes \<open>k\<close>
  occur in the lower-cased text, so every text with "metro" in any letter case is
  classified metro; the empty text is classified bus.
\<close>

lemma determine_transport_type_chain:
  "(\<forall>t. determine_transport_type U t =
      (if \<exists>k\<in>set metro_keywords. occurs_in k (str_lower U t) then Metro
       else if \<exists>k\<in>set train_keywords. occurs_in k (str_lower U t) then Train
       else if \<exists>k\<in>set auto_keywords. occurs_in k (str_lower U t) then Auto
       else if \<exists>k\<in>set taxi_keywords. occurs_in k (str_lower U t) then Taxi
       else Bus)) \<and>
   (\<forall>k m p s. casing_of k m \<longrightarrow> occurs_in k (str_lower U (p @ m @ s))) \<and>
   (\<forall>m p s. casing_of (ascii ''metro'') m \<longrightarrow> determine_transport_type U (p @ m @ s) = Metro) \<and>
   determine_transport_type U [] = Bus"
proof (intro conjI allI impI)
  fix t
  show "determine_transport_type U t =
      (if \<exists>k\<in>set metro_keywords. occurs_in k (str_lower U t) then Metro
       else if \<exists>k\<in>set train_keywords. occurs_in k (str_lower U t) then Train
       else if \<exists>k\<in>set auto_keywords. occurs_in k (str_lower U t) then Auto
       else if \<exists>k\<in>set taxi_keywords. occurs_in k (str_lower U t) then Taxi
       else Bus)"
    unfolding determine_transport_type_def Let_def any_keyword_in_iff by (rule refl)
next
  fix k m p s :: pystr
  assume "casing_of k m"
  then show "occurs_in k (str_lower U (p @ m @ s))" by (rule str_lower_occurs)
next
  fix m p s :: pystr
  assume "casing_of (ascii ''metro'') m"
  then have "occurs_in (ascii ''metro'') (str_lower U (p @ m @ s))" by (rule str_lower_occurs)
  moreover have "ascii ''metro'' \<in> set metro_keywords" by (simp add: metro_keywords_def)
  ultimately have "any_keyword_in metro_keywords (str_lower U (p @ m @ s))"
    unfolding any_keyword_in_iff by blast
  then show "determine_transport_type U (p @ m @ s) = Metro"
    by (simp add: determine_transport_type_def)
next
  show "determine_transport_type U [] = Bus"
    by (simp add: determine_transport_type_def str_lower_def any_keyword_in_def
        metro_keywords_def train_keywords_def auto_keywords_def taxi_keywords_def ascii_def)
qed

lemma lower_from_avoids:
  assumes "\<forall>pre post c. x \<notin> set (U pre post c)" and "128 \<le> x"
  shows "x \<notin> set (lower_from U pre t)"
  using assms
proof (induction t arbitrary: pre)
  case Nil
  show ?case by simp
next
  case (Cons c t)
  have "c < 128 \<Longrightarrow> ascii_lower c \<noteq> x"
    using Cons.prems(2) by (auto simp: ascii_lower_def)
  with Cons show ?case by auto
qed

lemma never_occurs:
  assumes "\<forall>pre post c. x \<notin> set (U pre post c)" and "128 \<le> x" and "x \<in> set k"
  shows "\<not> occurs_in k (str_lower U t)"
proof
  assume "occurs_in k (str_lower U t)"
  then have "x \<in> set (lower_from U [] t)"
    using assms(3) by (auto simp: occurs_in_def str_lower_def)
  with lower_from_avoids[OF assms(1,2)] show False by blast
qed

text \<open>
  Claim C5. The claim wants case-insensitive substring matching against the keywords
  of the four groups. \<^verbatim>\<open>determine_transport_type\<close> lower-cases the text and compares
  it with the keywords as they are written, and the second keyword of each group holds
  the upper-case code point U+0178, whose lower-case form is U+00FF. For every case
  table that agrees with \<^verbatim>\<open>str.lower\<close> on the code points of these keywords, a text
  equal to such a keyword is classified bus, and no text at all is matched by one of the
  four. The other keywords of the groups are matched, in any letter case.
\<close>

theorem determine_transport_type_keywords_never_match:
  assumes "\<forall>pre post c. 0x178 \<notin> set (U pre post c)"
    and "\<forall>pre post. U pre post 0x178 = [0xFF]"
    and "\<forall>pre post. list_all (\<lambda>c. U pre post c = [c])
           [0xE0, 0xA4, 0xAE, 0xA5, 0x2021, 0xB0, 0x2039, 0xA8, 0x2018, 0x2C6, 0x2022, 0xB8, 0x20AC]"
  shows "metro_keywords ! 1 =
           [0xE0, 0xA4, 0xAE, 0xE0, 0xA5, 0x2021, 0xE0, 0xA4, 0x178, 0xE0, 0xA5, 0xE0, 0xA4, 0xB0,
            0xE0, 0xA5, 0x2039] \<and>
         determine_transport_type U
           [0xE0, 0xA4, 0xAE, 0xE0, 0xA5, 0x2021, 0xE0, 0xA4, 0x178, 0xE0, 0xA5, 0xE0, 0xA4, 0xB0,
            0xE0, 0xA5, 0x2039] = Bus \<and>
         determine_transport_type U (train_keywords ! 1) = Bus \<and>
         determine_transport_type U (auto_keywords ! 1) = Bus \<and>
         determine_transport_type U (taxi_keywords ! 1) = Bus \<and>
         (\<forall>t. \<not> occurs_in (metro_keywords ! 1) (str_lower U t) \<and>
              \<not> occurs_in (train_keywords ! 1) (str_lower U t) \<and>
              \<not> occurs_in (auto_keywords ! 1) (str_lower U t) \<and>
              \<not> occurs_in (taxi_keywords ! 1) (str_lower U t)) \<and>
         determine_transport_type U (ascii ''Metro'') = Metro \<and>
         determine_transport_type U (ascii ''SUBWAY'') = Metro \<and>
         determine_transport_type U (ascii ''dmrc'') = Metro \<and>
         determine_transport_type U (ascii ''Train'') = Train \<and>
         determine_transport_type U (ascii ''RAILWAY'') = Train \<and>
         determine_transport_type U (ascii ''irctc'') = Train \<and>
         determine_transport_type U (ascii ''Auto'') = Auto \<and>
         determine_transport_type U (ascii ''RICKSHAW'') = Auto \<and>
         determine_transport_type U (ascii ''three wheeler'') = Auto \<and>
         determine_transport_type U (ascii ''Taxi'') = Taxi \<and>
         determine_transport_type U (ascii ''CAB'') = Taxi \<and>
         determine_transport_type U (ascii ''ola'') = Taxi \<and>
         determine_transport_type U (ascii ''Uber'') = Taxi"
proof -
  have low: "\<And>pre post. U pre post 376 = [255]"
    using assms(2) by simp
  have same: "\<And>pre post. U pre post 224 = [224]" "\<And>pre post. U pre post 164 = [164]"
    "\<And>pre post. U pre post 174 = [174]" "\<And>pre post. U pre post 165 = [165]"
    "\<And>pre post. U pre post 8225 = [8225]" "\<And>pre post. U pre post 176 = [176]"
    "\<And>pre post. U pre post 8249 = [8249]" "\<And>pre post. U pre post 168 = [168]"
    "\<And>pre post. U pre post 8216 = [8216]" "\<And>pre post. U pre post 710 = [710]"
    "\<And>pre post. U pre post 8226 = [8226]" "\<And>pre post. U pre post 184 = [184]"
    "\<And>pre post. U pre post 8364 = [8364]"
    using assms(3) by simp_all
  note run = determine_transport_type_def str_lower_def any_keyword_in_def metro_keywords_def
    train_keywords_def auto_keywords_def taxi_keywords_def ascii_def ascii_lower_def
  have k1: "metro_keywords ! 1 =
           [0xE0, 0xA4, 0xAE, 0xE0, 0xA5, 0x2021, 0xE0, 0xA4, 0x178, 0xE0, 0xA5, 0xE0, 0xA4, 0xB0,
            0xE0, 0xA5, 0x2039]"
    by (simp add: metro_keywords_def)
  have b1: "determine_transport_type U
           [0xE0, 0xA4, 0xAE, 0xE0, 0xA5, 0x2021, 0xE0, 0xA4, 0x178, 0xE0, 0xA5, 0xE0, 0xA4, 0xB0,
            0xE0, 0xA5, 0x2039] = Bus"
    by (simp add: run low same)
  have b2: "determine_transport_type U (train_keywords ! 1) = Bus"
    by (simp add: run low same)
  have b3: "determine_transport_type U (auto_keywords ! 1) = Bus"
    by (simp add: run low same)
  have b4: "determine_transport_type U (taxi_keywords ! 1) = Bus"
    by (simp add: run low same)
  have big: "(128::nat) \<le> 0x178" by simp
  have dead: "\<forall>t. \<not> occurs_in (metro_keywords ! 1) (str_lower U t) \<and>
              \<not> occurs_in (train_keywords ! 1) (str_lower U t) \<and>
              \<not> occurs_in (auto_keywords ! 1) (str_lower U t) \<and>
              \<not> occurs_in (taxi_keywords ! 1) (str_lower U t)"
  proof (intro allI conjI)
    fix t
    show "\<not> occurs_in (metro_keywords ! 1) (str_lower U t)"
      by (rule never_occurs[OF assms(1) big]) (simp add: metro_keywords_def)
    show "\<not> occurs_in (train_keywords ! 1) (str_lower U t)"
      by (rule never_occurs[OF assms(1) big]) (simp add: train_keywords_def)
    show "\<not> occurs_in (auto_keywords ! 1) (str_lower U t)"
      by (rule never_occurs[OF assms(1) big]) (simp add: auto_keywords_def)
    show "\<not> occurs_in (taxi_keywords ! 1) (str_lower U t)"
      by (rule never_occurs[OF assms(1) big]) (simp add: taxi_keywords_def)
  qed
  have m: "determine_transport_type U (ascii ''Metro'') = Metro"
    "determine_transport_type U (ascii ''SUBWAY'') = Metro"
    "determine_transport_type U (ascii ''dmrc'') = Metro"
    by (simp_all add: run)
  have t: "determine_transport_type U (ascii ''Train'') = Train"
    "determine_transport_type U (ascii ''RAILWAY'') = Train"
    "determine_transport_type U (ascii ''irctc'') = Train"
    by (simp_all add: run)
  have a: "determine_transport_type U (ascii ''Auto'') = Auto"
    "determine_transport_type U (ascii ''RICKSHAW'') = Auto"
    "determine_transport_type U (ascii ''three wheeler'') = Auto"
    by (simp_all add: run)
  have x: "determine_transport_type U (ascii ''Taxi'') = Taxi"
    "determine_transport_type U (ascii ''CAB'') = Taxi"
    "determine_transport_type U (ascii ''ola'') = Taxi"
    "determine_transport_type U (ascii ''Uber'') = Taxi"
    by (simp_all add: run)
  from k1 b1 b2 b3 b4 dead m t a x show ?thesis by blast
qed

text \<open>The table \<open>keyword_case\<close> and the text equal to the second metro keyword.\<close>

theorem determine_transport_type_keywords_never_match_witness:
  "(\<forall>pre post c. 0x178 \<notin> set (keyword_case pre post c)) \<and>
   (\<forall>pre post. keyword_case pre post 0x178 = [0xFF]) \<and>
   (\<forall>pre post. list_all (\<lambda>c. keyword_case pre post c = [c])
      [0xE0, 0xA4, 0xAE, 0xA5, 0x2021, 0xB0, 0x2039, 0xA8, 0x2018, 0x2C6, 0x2022, 0xB8, 0x20AC]) \<and>
   determine_transport_type keyword_case
     [0xE0, 0xA4, 0xAE, 0xE0, 0xA5, 0x2021, 0xE0, 0xA4, 0x178, 0xE0, 0xA5, 0xE0, 0xA4, 0xB0,
      0xE0, 0xA5, 0x2039] = Bus"
proof -
  have h1: "\<forall>pre post c. 0x178 \<notin> set (keyword_case pre post c)"
    by (simp add: keyword_case_def)
  have h2: "\<forall>pre post. keyword_case pre post 0x178 = [0xFF]"
    by (simp add: keyword_case_def)
  have h3: "\<forall>pre post. list_all (\<lambda>c. keyword_case pre post c = [c])
      [0xE0, 0xA4, 0xAE, 0xA5, 0x2021, 0xB0, 0x2039, 0xA8, 0x2018, 0x2C6, 0x2022, 0xB8, 0x20AC]"
    by (simp add: keyword_case_def)
  from determine_transport_type_keywords_never_match[OF h1 h2 h3] h1 h2 h3
  show ?thesis by blast
qed

text \<open>
  Claim C8. \<^verbatim>\<open>determine_sentiment_score\<close> maps every casing of "positive" to 0.5, of
  "negative" to -0.5 and of "neutral" to 0, and every label that is none of the three
  after lower-casing to 0; it raises on no label. "Positive" gives 0.5 and "unknown" 0.
\<close>

theorem determine_sentiment_score_labels:
  "(\<forall>l. casing_of (ascii ''positive'') l \<longrightarrow> determine_sentiment_score U l = 1 / 2) \<and>
   (\<forall>l. casing_of (ascii ''negative'') l \<longrightarrow> determine_sentiment_score U l = - (1 / 2)) \<and>
   (\<forall>l. casing_of (ascii ''neutral'') l \<longrightarrow> determine_sentiment_score U l = 0) \<and>
   (\<forall>l. str_lower U l \<notin> {ascii ''positive'', ascii ''negative'', ascii ''neutral''}
       \<longrightarrow> determine_sentiment_score U l = 0) \<and>
   determine_sentiment_score U (ascii ''Positive'') = 1 / 2 \<and>
   determine_sentiment_score U (ascii ''unknown'') = 0"
proof (intro conjI allI impI)
  fix l assume "casing_of (ascii ''positive'') l"
  then have "str_lower U l = ascii ''positive''" by (rule str_lower_casing)
  then show "determine_sentiment_score U l = 1 / 2"
    by (simp add: determine_sentiment_score_def sentiment_scores_def)
next
  fix l assume "casing_of (ascii ''negative'') l"
  then have "str_lower U l = ascii ''negative''" by (rule str_lower_casing)
  then show "determine_sentiment_score U l = - (1 / 2)"
    by (simp add: determine_sentiment_score_def sentiment_scores_def ascii_def)
next
  fix l assume "casing_of (ascii ''neutral'') l"
  then have "str_lower U l = ascii ''neutral''" by (rule str_lower_casing)
  then show "determine_sentiment_score U l = 0"
    by (simp add: determine_sentiment_score_def sentiment_scores_def ascii_def)
next
  fix l
  assume "str_lower U l \<notin> {ascii ''positive'', ascii ''negative'', ascii ''neutral''}"
  then show "determine_sentiment_score U l = 0"
    by (simp add: determine_sentiment_score_def sentiment_scores_def)
next
  show "determine_sentiment_score U (ascii ''Positive'') = 1 / 2"
    by (simp add: determine_sentiment_score_def sentiment_scores_def str_lower_def ascii_def
        ascii_lower_def)
next
  show "determine_sentiment_score U (ascii ''unknown'') = 0"
    by (simp add: determine_sentiment_score_def sentiment_scores_def str_lower_def ascii_def
        ascii_lower_def)
qed

text \<open>The label "NEGative".\<close>

theorem determine_sentiment_score_labels_witness:
  "casing_of (ascii ''negative'') (ascii ''NEGative'') \<and>
   determine_sentiment_score keep_case (ascii ''NEGative'') = - (1 / 2)"
proof -
  have h: "casing_of (ascii ''negative'') (ascii ''NEGative'')"
    by (simp add: casing_of_def ascii_def ascii_lower_def)
  from determine_sentiment_score_labels[of keep_case] h show ?thesis by blast
qed

section \<open>The tweets: claims\<close>

lemma str_split1_first:
  "sep \<notin> set a \<Longrightarrow> str_split1 sep (a @ sep # b) = [a, b]"
  by (induction a) (auto simp: str_split1_def)

lemma city_and_state_comma:
  "comma \<notin> set a \<Longrightarrow> city_and_state (a @ comma # b) = Inr (str_strip a, str_strip b)"
  by (simp add: city_and_state_def comma_literal str_contains_single str_split1_first unpack2_def)

lemma city_and_state_plain:
  "comma \<notin> set r \<Longrightarrow> city_and_state r = Inr (str_strip r, str_strip r)"
  by (simp add: city_and_state_def comma_literal str_contains_single)

lemma city_and_state_total: "\<exists>c s. city_and_state r = Inr (c, s)"
  by (simp add: city_and_state_def comma_literal str_contains_single str_split1_def unpack2_def)

lemma enrich_total:
  "\<exists>c s. enrich U fmt now row =
     Inr \<lparr>tw_id = row_id row,
          tw_text = dict_get (row_text row) [],
          tw_timestamp = fmt (dict_get (row_created_at row) now),
          tw_location = dict_get (row_region row) (ascii ''India''),
          tw_state = s,
          tw_city = c,
          tw_transportType = determine_transport_type U (dict_get (row_text row) []),
          tw_sentiment =
            \<lparr>polarity = determine_sentiment_score U (dict_get (row_sentiment row) (ascii ''neutral'')),
             label = dict_get (row_sentiment row) (ascii ''neutral''),
             confidence = 85 / 100\<rparr>\<rparr>"
proof -
  obtain c s where
    "city_and_state (dict_get (row_region row) (ascii ''India'')) = Inr (c, s)"
    using city_and_state_total by blast
  then show ?thesis
    unfolding enrich_def Let_def by simp
qed

lemma enrich_city_state:
  assumes "city_and_state (dict_get (row_region row) (ascii ''India'')) = Inr (c, s)"
  shows "\<exists>tw. enrich U fmt now row = Inr tw \<and> tw_city tw = c \<and> tw_state tw = s"
  using assms unfolding enrich_def Let_def by simp

lemma enrich_rows_total:
  "\<exists>tws. enrich_rows U fmt clock i rows = Inr tws \<and> length tws = length rows"
proof (induction rows arbitrary: i)
  case Nil
  show ?case by simp
next
  case (Cons row rows)
  obtain tw where tw: "enrich U fmt (clock i) row = Inr tw"
    using enrich_total[of U fmt "clock i" row] by blast
  obtain tws where "enrich_rows U fmt clock (Suc i) rows = Inr tws" "length tws = length rows"
    using Cons[of "Suc i"] by blast
  with tw show ?case by simp
qed

text \<open>
  Claim C3. In \<^verbatim>\<open>get_tweets\<close>, a region with a comma is split at its first comma: the
  city is the trimmed text before it and the state the trimmed rest. A region without a
  comma gives city and state both equal to the trimmed region. The region
  "Mumbai, Maharashtra, India" gives city "Mumbai" and state "Maharashtra, India", while
  \<^verbatim>\<open>extract_state_from_region\<close>, which the aggregation uses, gives "India" for it.
\<close>

theorem enrich_splits_at_first_comma:
  "(\<forall>row a b. dict_get (row_region row) (ascii ''India'') = a @ comma # b \<and> comma \<notin> set a \<longrightarrow>
      (\<exists>tw. enrich U fmt now row = Inr tw \<and> tw_city tw = str_strip a \<and> tw_state tw = str_strip b)) \<and>
   (\<forall>row. comma \<notin> set (dict_get (row_region row) (ascii ''India'')) \<longrightarrow>
      (\<exists>tw. enrich U fmt now row = Inr tw \<and>
         tw_city tw = str_strip (dict_get (row_region row) (ascii ''India'')) \<and>
         tw_state tw = str_strip (dict_get (row_region row) (ascii ''India'')))) \<and>
   (\<forall>row. row_region row = Some (ascii ''Mumbai, Maharashtra, India'') \<longrightarrow>
      (\<exists>tw. enrich U fmt now row = Inr tw \<and> tw_city tw = ascii ''Mumbai'' \<and>
         tw_state tw = ascii ''Maharashtra, India'')) \<and>
   extract_state_from_region (ascii ''Mumbai, Maharashtra, India'') = Inr (ascii ''India'')"
proof (intro conjI allI impI)
  fix row :: "'a tweet_row" and a b
  assume "dict_get (row_region row) (ascii ''India'') = a @ comma # b \<and> comma \<notin> set a"
  then show "\<exists>tw. enrich U fmt now row = Inr tw \<and> tw_city tw = str_strip a \<and> tw_state tw = str_strip b"
    using city_and_state_comma[of a b] by (intro enrich_city_state) simp
next
  fix row :: "'a tweet_row"
  assume "comma \<notin> set (dict_get (row_region row) (ascii ''India''))"
  then show "\<exists>tw. enrich U fmt now row = Inr tw \<and>
         tw_city tw = str_strip (dict_get (row_region row) (ascii ''India'')) \<and>
         tw_state tw = str_strip (dict_get (row_region row) (ascii ''India''))"
    by (intro enrich_city_state city_and_state_plain)
next
  fix row :: "'a tweet_row"
  assume r: "row_region row = Some (ascii ''Mumbai, Maharashtra, India'')"
  have "ascii ''Mumbai, Maharashtra, India'' = ascii ''Mumbai'' @ comma # ascii '' Maharashtra, India''"
    by (simp add: ascii_def comma_def)
  moreover have "comma \<notin> set (ascii ''Mumbai'')"
    by (simp add: ascii_def comma_def)
  moreover have "str_strip (ascii ''Mumbai'') = ascii ''Mumbai''"
    by (simp add: ascii_def str_strip_def is_space_def)
  moreover have "str_strip (ascii '' Maharashtra, India'') = ascii ''Maharashtra, India''"
    by (simp add: ascii_def str_strip_def is_space_def)
  ultimately have "city_and_state (dict_get (row_region row) (ascii ''India''))
      = Inr (ascii ''Mumbai'', ascii ''Maharashtra, India'')"
    using r city_and_state_comma[of "ascii ''Mumbai''" "ascii '' Maharashtra, India''"]
    by (simp add: dict_get_def)
  then show "\<exists>tw. enrich U fmt now row = Inr tw \<and> tw_city tw = ascii ''Mumbai'' \<and>
         tw_state tw = ascii ''Maharashtra, India''"
    by (rule enrich_city_state)
next
  show "extract_state_from_region (ascii ''Mumbai, Maharashtra, India'') = Inr (ascii ''India'')"
    by (simp add: extract_state_from_region_def index_last_def ascii_def comma_def
        str_strip_def is_space_def)
qed

text \<open>A row of region "Mumbai, Maharashtra, India".\<close>

theorem enrich_splits_at_first_comma_witness:
  "row_region \<lparr>row_id = Some 7, row_text = Some (ascii ''auto strike''),
      row_region = Some (ascii ''Mumbai, Maharashtra, India''),
      row_sentiment = Some (ascii ''negative''), row_created_at = Some (3::nat)\<rparr>
     = Some (ascii ''Mumbai, Maharashtra, India'') \<and>
   (\<exists>tw. enrich keep_case (\<lambda>t. [t]) 0
       \<lparr>row_id = Some 7, row_text = Some (ascii ''auto strike''),
        row_region = Some (ascii ''Mumbai, Maharashtra, India''),
        row_sentiment = Some (ascii ''negative''), row_created_at = Some (3::nat)\<rparr> = Inr tw \<and>
      tw_city tw = ascii ''Mumbai'' \<and> tw_state tw = ascii ''Maharashtra, India'')"
  using enrich_splits_at_first_comma[of keep_case "\<lambda>t. [t]" "0::nat"]
  by simp

text \<open>
  Claim C7. The loop body of \<^verbatim>\<open>get_tweets\<close> raises on no row, and so the loop on no
  list of rows. A missing text is read as the empty string, a missing region as "India",
  a missing sentiment as "neutral" and a missing time stamp as the current time; the
  transport type and the polarity are computed from these values, and the confidence is
  0.85. A row with no field at all is classified bus with polarity 0.
\<close>

theorem enrich_defaults_missing_fields:
  "(\<forall>row. \<exists>tw. enrich U fmt now row = Inr tw \<and>
      tw_id tw = row_id row \<and>
      tw_text tw = dict_get (row_text row) [] \<and>
      tw_location tw = dict_get (row_region row) (ascii ''India'') \<and>
      label (tw_sentiment tw) = dict_get (row_sentiment row) (ascii ''neutral'') \<and>
      tw_timestamp tw = fmt (dict_get (row_created_at row) now) \<and>
      tw_transportType tw = determine_transport_type U (dict_get (row_text row) []) \<and>
      polarity (tw_sentiment tw) =
        determine_sentiment_score U (dict_get (row_sentiment row) (ascii ''neutral'')) \<and>
      confidence (tw_sentiment tw) = 85 / 100) \<and>
   (\<forall>clock rows. \<exists>tws. get_tweets U fmt clock rows = Inr tws \<and> length tws = length rows) \<and>
   enrich U fmt now
     \<lparr>row_id = None, row_text = None, row_region = None, row_sentiment = None,
      row_created_at = None\<rparr>
   = Inr \<lparr>tw_id = None, tw_text = [], tw_timestamp = fmt now, tw_location = ascii ''India'',
          tw_state = ascii ''India'', tw_city = ascii ''India'', tw_transportType = Bus,
          tw_sentiment = \<lparr>polarity = 0, label = ascii ''neutral'', confidence = 85 / 100\<rparr>\<rparr>"
proof (intro conjI allI)
  fix row :: "'a tweet_row"
  obtain c s where "enrich U fmt now row =
     Inr \<lparr>tw_id = row_id row,
          tw_text = dict_get (row_text row) [],
          tw_timestamp = fmt (dict_get (row_created_at row) now),
          tw_location = dict_get (row_region row) (ascii ''India''),
          tw_state = s,
          tw_city = c,
          tw_transportType = determine_transport_type U (dict_get (row_text row) []),
          tw_sentiment =
            \<lparr>polarity = determine_sentiment_score U (dict_get (row_sentiment row) (ascii ''neutral'')),
             label = dict_get (row_sentiment row) (ascii ''neutral''),
             confidence = 85 / 100\<rparr>\<rparr>"
    using enrich_total[of U fmt now row] by blast
  then show "\<exists>tw. enrich U fmt now row = Inr tw \<and>
      tw_id tw = row_id row \<and>
      tw_text tw = dict_get (row_text row) [] \<and>
      tw_location tw = dict_get (row_region row) (ascii ''India'') \<and>
      label (tw_sentiment tw) = dict_get (row_sentiment row) (ascii ''neutral'') \<and>
      tw_timestamp tw = fmt (dict_get (row_created_at row) now) \<and>
      tw_transportType tw = determine_transport_type U (dict_get (row_text row) []) \<and>
      polarity (tw_sentiment tw) =
        determine_sentiment_score U (dict_get (row_sentiment row) (ascii ''neutral'')) \<and>
      confidence (tw_sentiment tw) = 85 / 100"
    by simp
next
  fix clock :: "nat \<Rightarrow> 'a" and rows :: "'a tweet_row list"
  show "\<exists>tws. get_tweets U fmt clock rows = Inr tws \<and> length tws = length rows"
    unfolding get_tweets_def by (rule enrich_rows_total)
next
  have bus: "determine_transport_type U [] = Bus"
    by (simp add: determine_transport_type_def str_lower_def any_keyword_in_def
        metro_keywords_def train_keywords_def auto_keywords_def taxi_keywords_def ascii_def)
  have neutral: "determine_sentiment_score U (ascii ''neutral'') = 0"
    by (simp add: determine_sentiment_score_def sentiment_scores_def str_lower_def ascii_def
        ascii_lower_def)
  have "comma \<notin> set (ascii ''India'')"
    by (simp add: ascii_def comma_def)
  then have split: "city_and_state (ascii ''India'')
         = Inr (str_strip (ascii ''India''), str_strip (ascii ''India''))"
    by (rule city_and_state_plain)
  have strip: "str_strip (ascii ''India'') = ascii ''India''"
    by (simp add: ascii_def str_strip_def is_space_def)
  show "enrich U fmt now
     \<lparr>row_id = None, row_text = None, row_region = None, row_sentiment = None,
      row_created_at = None\<rparr>
   = Inr \<lparr>tw_id = None, tw_text = [], tw_timestamp = fmt now, tw_location = ascii ''India'',
          tw_state = ascii ''India'', tw_city = ascii ''India'', tw_transportType = Bus,
          tw_sentiment = \<lparr>polarity = 0, label = ascii ''neutral'', confidence = 85 / 100\<rparr>\<rparr>"
    unfolding enrich_def Let_def
    by (simp add: dict_get_def bus neutral split strip)
qed

section \<open>The aggregation: lemmas\<close>

subsection \<open>first_seen\<close>

lemma first_seen_filter: "first_seen (filter P xs) = filter P (first_seen xs)"
proof (induction xs)
  case Nil
  show ?case by simp
next
  case (Cons x xs)
  show ?case
  proof (cases "P x")
    case True
    with Cons show ?thesis by (simp add: conj_commute)
  next
    case False
    have "filter (\<lambda>y. y \<noteq> x \<and> P y) (first_seen xs) = filter P (first_seen xs)"
      by (rule filter_cong) (use False in auto)
    with False Cons show ?thesis by simp
  qed
qed

lemma set_first_seen: "set (first_seen xs) = set xs"
  by (induction xs) auto

lemma distinct_first_seen: "distinct (first_seen xs)"
  by (induction xs) (auto simp: set_first_seen)

lemma first_seen_append:
  "first_seen (xs @ ys) = first_seen xs @ filter (\<lambda>y. y \<notin> set xs) (first_seen ys)"
proof (induction xs)
  case Nil
  show ?case by simp
next
  case (Cons x xs)
  have "filter (\<lambda>y. y \<noteq> x) (filter (\<lambda>y. y \<notin> set xs) (first_seen ys))
      = filter (\<lambda>y. y \<notin> set (x # xs)) (first_seen ys)"
    by (auto intro: filter_cong)
  with Cons show ?case by simp
qed

lemma foldl_add_key:
  "foldl add_key ks xs = ks @ filter (\<lambda>y. y \<notin> set ks) (first_seen xs)"
proof (induction xs arbitrary: ks)
  case Nil
  show ?case by simp
next
  case (Cons x xs)
  show ?case
  proof (cases "x \<in> set ks")
    case True
    have "filter (\<lambda>y. y \<notin> set ks) (filter (\<lambda>y. y \<noteq> x) (first_seen xs))
        = filter (\<lambda>y. y \<notin> set ks) (first_seen xs)"
      using True by (auto intro: filter_cong)
    with True Cons[of ks] show ?thesis by (simp add: add_key_def)
  next
    case False
    have "filter (\<lambda>y. y \<notin> set (ks @ [x])) (first_seen xs)
        = filter (\<lambda>y. y \<notin> set ks) (filter (\<lambda>y. y \<noteq> x) (first_seen xs))"
      by (auto intro: filter_cong)
    with False Cons[of "ks @ [x]"] show ?thesis by (simp add: add_key_def)
  qed
qed

lemma foldl_add_key_Nil: "foldl add_key [] xs = first_seen xs"
  by (simp add: foldl_add_key)

subsection \<open>state_data_upd\<close>

lemma keys_state_data_upd: "map fst (state_data_upd k f sd) = add_key (map fst sd) k"
proof (induction sd)
  case Nil
  show ?case by (simp add: add_key_def)
next
  case (Cons kb sd)
  obtain k' b where kb: "kb = (k', b)" by (cases kb)
  show ?case
  proof (cases "k' = k")
    case True
    with kb show ?thesis by (simp add: add_key_def)
  next
    case False
    with kb Cons show ?thesis by (simp add: add_key_def)
  qed
qed

lemma state_data_upd_twice:
  "state_data_upd k f (state_data_upd k g sd) = state_data_upd k (\<lambda>b. f (g b)) sd"
  by (induction sd) auto

lemma bucket_at_state_data_upd:
  "bucket_at (state_data_upd k f sd) k' = (if k' = k then f (bucket_at sd k) else bucket_at sd k')"
  by (induction sd) (auto simp: bucket_at_def)

lemma state_data_by_keys:
  "distinct (map fst sd) \<Longrightarrow> map (\<lambda>k. (k, bucket_at sd k)) (map fst sd) = sd"
proof (induction sd)
  case Nil
  show ?case by simp
next
  case (Cons kb sd)
  obtain k b where kb: "kb = (k, b)" by (cases kb)
  from Cons.prems kb have notin: "k \<notin> fst ` set sd" and d: "distinct (map fst sd)" by auto
  have "map (\<lambda>k'. (k', bucket_at ((k, b) # sd) k')) (map fst sd)
      = map (\<lambda>k'. (k', bucket_at sd k')) (map fst sd)"
    using notin by (auto simp: bucket_at_def)
  with Cons.IH[OF d] kb show ?case by (simp add: bucket_at_def)
qed

lemma keys_foldl_upd:
  "map fst (foldl (\<lambda>sd x. state_data_upd (key x) (g x) sd) sd xs)
     = foldl add_key (map fst sd) (map key xs)"
  by (induction xs arbitrary: sd) (simp_all add: keys_state_data_upd)

lemma bucket_at_foldl_upd:
  "bucket_at (foldl (\<lambda>sd x. state_data_upd (key x) (g x) sd) sd xs) s
     = foldl (\<lambda>b x. if key x = s then g x b else b) (bucket_at sd s) xs"
  by (induction xs arbitrary: sd) (simp_all add: bucket_at_state_data_upd)

subsection \<open>The loops\<close>

lemma extract_state_from_region_Inr:
  "extract_state_from_region r = Inr (region_state r)"
proof -
  have "\<exists>s. extract_state_from_region r = Inr s"
    by (cases "str_split comma r")
      (auto simp: extract_state_from_region_def index_last_def str_split_not_Nil)
  then show ?thesis by (auto simp: region_state_def)
qed

lemma count_tweet_Inr:
  "count_tweet U sd tweet =
     Inr (state_data_upd (tweet_state tweet)
            (count_transport (determine_transport_type U (dict_get (row_text tweet) []))) sd)"
proof -
  have "count_transport (determine_transport_type U (dict_get (row_text tweet) []))
      = (\<lambda>b. b\<lparr>transport_breakdown :=
            increment (determine_transport_type U (dict_get (row_text tweet) []))
              (transport_breakdown b)\<rparr>)"
    by (rule ext) (simp add: count_transport_def)
  then show ?thesis
    by (simp add: count_tweet_def extract_state_from_region_Inr tweet_state_def)
qed

lemma add_summary_Inr:
  "add_summary sd row = Inr (state_data_upd (summary_state row) (add_counts row) sd)"
proof -
  have "add_counts row = (\<lambda>b.
      (\<lambda>b. b\<lparr>neutral_count := neutral_count b + dict_get (sum_neutral_count row) 0\<rparr>)
      ((\<lambda>b. b\<lparr>negative_count := negative_count b + dict_get (sum_negative_count row) 0\<rparr>)
      ((\<lambda>b. b\<lparr>positive_count := positive_count b + dict_get (sum_positive_count row) 0\<rparr>)
      ((\<lambda>b. b\<lparr>total_messages := total_messages b + dict_get (sum_total_messages row) 0\<rparr>) b))))"
    by (rule ext) (simp add: add_counts_def)
  then show ?thesis
    by (simp add: add_summary_def extract_state_from_region_Inr summary_state_def
        state_data_upd_twice)
qed

lemma for_each_Inr:
  "(\<And>s x. body s x = Inr (g s x)) \<Longrightarrow> for_each body s xs = Inr (foldl g s xs)"
  by (induction xs arbitrary: s) simp_all

lemma make_reports_Inr:
  "make_reports sd = Inr (map bucket_report (filter (\<lambda>kb. total_messages (snd kb) > 0) sd))"
proof (induction sd)
  case Nil
  show ?case by simp
next
  case (Cons kb sd)
  obtain k b where kb: "kb = (k, b)" by (cases kb)
  with Cons show ?case
    by (simp add: truediv_def bucket_report_def)
qed

lemma transport_count_Cons:
  "transport_count U (tweet # tweets) s t =
     (if tweet_state tweet = s \<and> determine_transport_type U (dict_get (row_text tweet) []) = t
      then 1 else 0) + transport_count U tweets s t"
  by (simp add: transport_count_def)

lemma accumulated_Cons:
  "accumulated field (row # rows) s =
     (if summary_state row = s then dict_get (field row) 0 else 0) + accumulated field rows s"
  by (simp add: accumulated_def)

lemma tweets_keep_counts:
  fixes tt :: "'t tweet_row \<Rightarrow> transport"
  defines "step s \<equiv> (\<lambda>b tweet. if tweet_state tweet = s then count_transport (tt tweet) b else b)"
  shows "total_messages (foldl (step s) b tweets) = total_messages b"
    and "positive_count (foldl (step s) b tweets) = positive_count b"
    and "negative_count (foldl (step s) b tweets) = negative_count b"
    and "neutral_count (foldl (step s) b tweets) = neutral_count b"
  unfolding step_def
  by (induction tweets arbitrary: b) (simp_all add: count_transport_def)

lemma tweets_breakdown:
  "transport_breakdown
     (foldl (\<lambda>b tweet. if tweet_state tweet = s
          then count_transport (determine_transport_type U (dict_get (row_text tweet) [])) b else b)
        b tweets)
   = \<lparr>tb_bus = tb_bus (transport_breakdown b) + transport_count U tweets s Bus,
      tb_metro = tb_metro (transport_breakdown b) + transport_count U tweets s Metro,
      tb_train = tb_train (transport_breakdown b) + transport_count U tweets s Train,
      tb_auto = tb_auto (transport_breakdown b) + transport_count U tweets s Auto,
      tb_taxi = tb_taxi (transport_breakdown b) + transport_count U tweets s Taxi\<rparr>"
proof (induction tweets arbitrary: b)
  case Nil
  show ?case by (simp add: transport_count_def)
next
  case (Cons tweet tweets)
  show ?case
  proof (cases "tweet_state tweet = s")
    case False
    with Cons[of b] show ?thesis by (simp add: transport_count_Cons)
  next
    case True
    show ?thesis
      using True Cons[of "count_transport (determine_transport_type U (dict_get (row_text tweet) [])) b"]
      by (cases "determine_transport_type U (dict_get (row_text tweet) [])")
        (simp_all add: transport_count_Cons count_transport_def)
  qed
qed

lemma rows_add_counts:
  defines "step s \<equiv> (\<lambda>b row. if summary_state row = s then add_counts row b else b)"
  shows "total_messages (foldl (step s) b rows)
           = total_messages b + accumulated sum_total_messages rows s"
    and "positive_count (foldl (step s) b rows)
           = positive_count b + accumulated sum_positive_count rows s"
    and "negative_count (foldl (step s) b rows)
           = negative_count b + accumulated sum_negative_count rows s"
    and "neutral_count (foldl (step s) b rows)
           = neutral_count b + accumulated sum_neutral_count rows s"
    and "transport_breakdown (foldl (step s) b rows) = transport_breakdown b"
  unfolding step_def
  by (induction rows arbitrary: b) (simp_all add: accumulated_Cons add_counts_def accumulated_def)

lemma get_states_summary_make_reports:
  "get_states_summary U tweets rows = make_reports (summed U tweets rows)"
proof -
  have 1: "for_each (count_tweet U) [] tweets = Inr (counted U tweets)"
    unfolding counted_def by (rule for_each_Inr) (rule count_tweet_Inr)
  have 2: "for_each add_summary (counted U tweets) rows = Inr (summed U tweets rows)"
    unfolding summed_def by (rule for_each_Inr) (rule add_summary_Inr)
  show ?thesis by (simp add: get_states_summary_def 1 2)
qed

lemma keys_summed:
  "map fst (summed U tweets rows) = first_seen (map tweet_state tweets @ map summary_state rows)"
proof -
  have "map fst (summed U tweets rows)
      = foldl add_key (foldl add_key [] (map tweet_state tweets)) (map summary_state rows)"
    by (simp add: summed_def counted_def keys_foldl_upd)
  also have "\<dots> = foldl add_key [] (map tweet_state tweets @ map summary_state rows)"
    by simp
  finally show ?thesis by (simp only: foldl_add_key_Nil)
qed

lemma bucket_at_summed:
  "bucket_at (summed U tweets rows) s
     = foldl (\<lambda>b row. if summary_state row = s then add_counts row b else b)
         (foldl (\<lambda>b tweet. if tweet_state tweet = s
              then count_transport (determine_transport_type U (dict_get (row_text tweet) [])) b
              else b) default_bucket tweets) rows"
proof -
  have "bucket_at [] s = default_bucket" by (simp add: bucket_at_def)
  then show ?thesis by (simp add: summed_def counted_def bucket_at_foldl_upd)
qed

lemma total_summed:
  "total_messages (bucket_at (summed U tweets rows) s) = accumulated sum_total_messages rows s"
  by (simp add: bucket_at_summed rows_add_counts tweets_keep_counts default_bucket_def)

lemma bucket_report_summed:
  "bucket_report (s, bucket_at (summed U tweets rows) s) = report_of U tweets rows s"
  by (simp add: bucket_at_summed bucket_report_def report_of_def rows_add_counts
      tweets_keep_counts tweets_breakdown default_bucket_def)

lemma get_states_summary_eq:
  "get_states_summary U tweets rows =
     Inr (map (report_of U tweets rows)
            (filter (\<lambda>s. 0 < accumulated sum_total_messages rows s)
               (first_seen (map tweet_state tweets @ map summary_state rows))))"
proof -
  let ?sd = "summed U tweets rows"
  let ?keys = "first_seen (map tweet_state tweets @ map summary_state rows)"
  have "distinct (map fst ?sd)"
    by (simp only: keys_summed distinct_first_seen)
  then have sd: "?sd = map (\<lambda>k. (k, bucket_at ?sd k)) ?keys"
    using state_data_by_keys[of ?sd] by (simp only: keys_summed)
  have "filter (\<lambda>kb. 0 < total_messages (snd kb)) ?sd
      = map (\<lambda>k. (k, bucket_at ?sd k)) (filter (\<lambda>s. 0 < accumulated sum_total_messages rows s) ?keys)"
    by (subst sd) (simp add: filter_map comp_def total_summed)
  then have "map bucket_report (filter (\<lambda>kb. 0 < total_messages (snd kb)) ?sd)
      = map (report_of U tweets rows) (filter (\<lambda>s. 0 < accumulated sum_total_messages rows s) ?keys)"
    by (simp add: comp_def bucket_report_summed)
  then show ?thesis
    by (simp only: get_states_summary_make_reports make_reports_Inr)
qed

text \<open>The equations that run the aggregation on a given input.\<close>

lemmas run_states_summary =
  get_states_summary_def count_tweet_def add_summary_def extract_state_from_region_def
  index_last_def ascii_def comma_def str_strip_def is_space_def dict_get_def
  determine_transport_type_def str_lower_def any_keyword_in_def metro_keywords_def
  train_keywords_def auto_keywords_def taxi_keywords_def ascii_lower_def truediv_def
  default_bucket_def keep_case_def

lemma accumulated_bound:
  assumes "\<forall>row\<in>set rows. \<bar>dict_get (sum_positive_count row) 0 - dict_get (sum_negative_count row) 0\<bar>
             \<le> dict_get (sum_total_messages row) 0"
  shows "\<bar>accumulated sum_positive_count rows s - accumulated sum_negative_count rows s\<bar>
           \<le> accumulated sum_total_messages rows s"
  using assms
proof (induction rows)
  case Nil
  show ?case by (simp add: accumulated_def)
next
  case (Cons row rows)
  then have "\<bar>accumulated sum_positive_count rows s - accumulated sum_negative_count rows s\<bar>
           \<le> accumulated sum_total_messages rows s"
    and "\<bar>dict_get (sum_positive_count row) 0 - dict_get (sum_negative_count row) 0\<bar>
             \<le> dict_get (sum_total_messages row) 0"
    by simp_all
  then show ?case by (auto simp: accumulated_Cons abs_le_iff)
qed

lemma score_in_range:
  fixes d t :: int
  assumes "\<bar>d\<bar> \<le> t" and "0 < t"
  shows "- 1 \<le> (of_int d / of_int t :: rat) \<and> (of_int d / of_int t :: rat) \<le> 1"
proof -
  have t: "(0::rat) < of_int t" using assms(2) by simp
  have "(of_int d :: rat) \<le> of_int t" and "- (of_int t :: rat) \<le> of_int d"
    using assms(1) by (simp_all flip: of_int_minus add: abs_le_iff)
  with t show ?thesis
    by (simp add: pos_le_divide_eq pos_divide_le_eq)
qed

section \<open>The aggregation: claims\<close>

lemma state_report_of: "state (report_of U tweets rows s) = s"
  by (simp add: report_of_def)

lemma map_state_report_of: "map state (map (report_of U tweets rows) ss) = ss"
  by (induction ss) (simp_all add: state_report_of)

text \<open>
  Claim C1. \<^verbatim>\<open>get_states_summary\<close> returns a list of reports. Every report has a
  positive accumulated total, shows that total, and its score is the accumulated
  positive count minus the accumulated negative count, divided by the accumulated
  total. A state whose accumulated total is zero has no report; the states with a report
  are the states of the records and rows whose accumulated total is positive.
\<close>

theorem states_summary_score:
  "\<exists>out. get_states_summary U tweets rows = Inr out \<and>
     (\<forall>rep\<in>set out.
        0 < accumulated sum_total_messages rows (state rep) \<and>
        totalMessages rep = accumulated sum_total_messages rows (state rep) \<and>
        sentimentScore rep =
          of_int (accumulated sum_positive_count rows (state rep)
                  - accumulated sum_negative_count rows (state rep))
            / of_int (accumulated sum_total_messages rows (state rep))) \<and>
     (\<forall>s. accumulated sum_total_messages rows s = 0 \<longrightarrow> s \<notin> state ` set out) \<and>
     (\<forall>s. s \<in> state ` set out \<longleftrightarrow>
        s \<in> tweet_state ` set tweets \<union> summary_state ` set rows \<and>
        0 < accumulated sum_total_messages rows s)"
proof -
  define keys where "keys = first_seen (map tweet_state tweets @ map summary_state rows)"
  define shown where "shown = filter (\<lambda>s. 0 < accumulated sum_total_messages rows s) keys"
  define out where "out = map (report_of U tweets rows) shown"
  have run: "get_states_summary U tweets rows = Inr out"
    by (simp add: get_states_summary_eq out_def shown_def keys_def)
  have states: "state ` set out = set shown"
    using map_state_report_of[of U tweets rows shown]
    by (metis out_def set_map)
  have shown: "set shown = {s. s \<in> tweet_state ` set tweets \<union> summary_state ` set rows \<and>
      0 < accumulated sum_total_messages rows s}"
    by (auto simp: shown_def keys_def set_first_seen)
  have reports: "\<forall>rep\<in>set out.
        0 < accumulated sum_total_messages rows (state rep) \<and>
        totalMessages rep = accumulated sum_total_messages rows (state rep) \<and>
        sentimentScore rep =
          of_int (accumulated sum_positive_count rows (state rep)
                  - accumulated sum_negative_count rows (state rep))
            / of_int (accumulated sum_total_messages rows (state rep))"
  proof
    fix rep assume "rep \<in> set out"
    then obtain s where s: "rep = report_of U tweets rows s" "s \<in> set shown"
      by (auto simp: out_def)
    then have "0 < accumulated sum_total_messages rows s" by (simp add: shown_def)
    with s(1) show "0 < accumulated sum_total_messages rows (state rep) \<and>
        totalMessages rep = accumulated sum_total_messages rows (state rep) \<and>
        sentimentScore rep =
          of_int (accumulated sum_positive_count rows (state rep)
                  - accumulated sum_negative_count rows (state rep))
            / of_int (accumulated sum_total_messages rows (state rep))"
      by (simp add: report_of_def)
  qed
  have absent: "\<forall>s. accumulated sum_total_messages rows s = 0 \<longrightarrow> s \<notin> state ` set out"
    by (simp add: states shown)
  have present: "\<forall>s. s \<in> state ` set out \<longleftrightarrow>
        s \<in> tweet_state ` set tweets \<union> summary_state ` set rows \<and>
        0 < accumulated sum_total_messages rows s"
    by (simp add: states shown)
  from run reports absent present show ?thesis by blast
qed

text \<open>
  One record of Maharashtra, a summary row of Goa with total 0 and one of Maharashtra
  with total 10, 6 positive and 2 negative: one report, of score 0.4, and none for Goa.
\<close>

theorem states_summary_score_witness:
  "accumulated sum_total_messages
     [\<lparr>sum_region = Some (ascii ''Panaji, Goa''), sum_total_messages = Some 0,
       sum_positive_count = Some 0, sum_negative_count = Some 0, sum_neutral_count = Some 0\<rparr>,
      \<lparr>sum_region = Some (ascii ''Mumbai, Maharashtra''), sum_total_messages = Some 10,
       sum_positive_count = Some 6, sum_negative_count = Some 2, sum_neutral_count = Some 2\<rparr>]
     (ascii ''Goa'') = 0 \<and>
   get_states_summary keep_case
     [\<lparr>row_id = Some 1, row_text = Some (ascii ''Metro is late''),
       row_region = Some (ascii ''Mumbai, Maharashtra''),
       row_sentiment = None, row_created_at = (None :: unit option)\<rparr>]
     [\<lparr>sum_region = Some (ascii ''Panaji, Goa''), sum_total_messages = Some 0,
       sum_positive_count = Some 0, sum_negative_count = Some 0, sum_neutral_count = Some 0\<rparr>,
      \<lparr>sum_region = Some (ascii ''Mumbai, Maharashtra''), sum_total_messages = Some 10,
       sum_positive_count = Some 6, sum_negative_count = Some 2, sum_neutral_count = Some 2\<rparr>]
   = Inr [\<lparr>state = ascii ''Maharashtra'', sentimentScore = 2 / 5, totalMessages = 10,
           transportBreakdown = \<lparr>tb_bus = 0, tb_metro = 1, tb_train = 0, tb_auto = 0, tb_taxi = 0\<rparr>,
           sentimentBreakdown = \<lparr>positive = 6, negative = 2, neutral = 2\<rparr>\<rparr>] \<and>
   ascii ''Goa'' \<notin> state `
     set [\<lparr>state = ascii ''Maharashtra'', sentimentScore = 2 / 5, totalMessages = 10,
           transportBreakdown = \<lparr>tb_bus = 0, tb_metro = 1, tb_train = 0, tb_auto = 0, tb_taxi = 0\<rparr>,
           sentimentBreakdown = \<lparr>positive = 6, negative = 2, neutral = 2\<rparr>\<rparr>]"
proof -
  let ?tweets = "[\<lparr>row_id = Some 1, row_text = Some (ascii ''Metro is late''),
       row_region = Some (ascii ''Mumbai, Maharashtra''),
       row_sentiment = None, row_created_at = (None :: unit option)\<rparr>]"
  let ?rows = "[\<lparr>sum_region = Some (ascii ''Panaji, Goa''), sum_total_messages = Some 0,
       sum_positive_count = Some 0, sum_negative_count = Some 0, sum_neutral_count = Some 0\<rparr>,
      \<lparr>sum_region = Some (ascii ''Mumbai, Maharashtra''), sum_total_messages = Some 10,
       sum_positive_count = Some 6, sum_negative_count = Some 2, sum_neutral_count = Some 2\<rparr>]"
  have zero: "accumulated sum_total_messages ?rows (ascii ''Goa'') = 0"
    by (simp add: accumulated_def summary_state_def region_state_def run_states_summary)
  have run: "get_states_summary keep_case ?tweets ?rows
     = Inr [\<lparr>state = ascii ''Maharashtra'', sentimentScore = 2 / 5, totalMessages = 10,
           transportBreakdown = \<lparr>tb_bus = 0, tb_metro = 1, tb_train = 0, tb_auto = 0, tb_taxi = 0\<rparr>,
           sentimentBreakdown = \<lparr>positive = 6, negative = 2, neutral = 2\<rparr>\<rparr>]"
    by (simp add: run_states_summary)
  from states_summary_score[of keep_case ?tweets ?rows] zero
  have "ascii ''Goa'' \<notin> state `
     set [\<lparr>state = ascii ''Maharashtra'', sentimentScore = 2 / 5, totalMessages = 10,
           transportBreakdown = \<lparr>tb_bus = 0, tb_metro = 1, tb_train = 0, tb_auto = 0, tb_taxi = 0\<rparr>,
           sentimentBreakdown = \<lparr>positive = 6, negative = 2, neutral = 2\<rparr>\<rparr>]"
    unfolding run by blast
  with zero run show ?thesis by blast
qed

text \<open>
  Claim C2, as stated, fails: the counts of a summary row are added as they come, and a
  row with total 1 and 2 positive messages gives the score 2.
\<close>

theorem sentiment_score_range_counterexample:
  "get_states_summary keep_case ([] :: unit tweet_row list)
     [\<lparr>sum_region = Some (ascii ''Goa''), sum_total_messages = Some 1,
       sum_positive_count = Some 2, sum_negative_count = Some 0, sum_neutral_count = Some 0\<rparr>]
   = Inr [\<lparr>state = ascii ''Goa'', sentimentScore = 2, totalMessages = 1,
           transportBreakdown = \<lparr>tb_bus = 0, tb_metro = 0, tb_train = 0, tb_auto = 0, tb_taxi = 0\<rparr>,
           sentimentBreakdown = \<lparr>positive = 2, negative = 0, neutral = 0\<rparr>\<rparr>] \<and>
   \<not> sentimentScore
       \<lparr>state = ascii ''Goa'', sentimentScore = 2, totalMessages = 1,
        transportBreakdown = \<lparr>tb_bus = 0, tb_metro = 0, tb_train = 0, tb_auto = 0, tb_taxi = 0\<rparr>,
        sentimentBreakdown = \<lparr>positive = 2, negative = 0, neutral = 0\<rparr>\<rparr> \<le> 1"
  by (simp add: run_states_summary)

text \<open>
  Claim C2, amended. When in every summary row the positive and the negative count
  differ by at most the total (a missing count read as 0), every report of
  \<^verbatim>\<open>get_states_summary\<close> has a score from -1 to 1.
\<close>

theorem sentiment_score_range:
  assumes "\<forall>row\<in>set rows.
             \<bar>dict_get (sum_positive_count row) 0 - dict_get (sum_negative_count row) 0\<bar>
               \<le> dict_get (sum_total_messages row) 0"
  shows "\<exists>out. get_states_summary U tweets rows = Inr out \<and>
           (\<forall>rep\<in>set out. - 1 \<le> sentimentScore rep \<and> sentimentScore rep \<le> 1)"
proof -
  define shown where "shown = filter (\<lambda>s. 0 < accumulated sum_total_messages rows s)
      (first_seen (map tweet_state tweets @ map summary_state rows))"
  have run: "get_states_summary U tweets rows = Inr (map (report_of U tweets rows) shown)"
    by (simp add: get_states_summary_eq shown_def)
  have "\<forall>rep\<in>set (map (report_of U tweets rows) shown).
          - 1 \<le> sentimentScore rep \<and> sentimentScore rep \<le> 1"
  proof
    fix rep assume "rep \<in> set (map (report_of U tweets rows) shown)"
    then obtain s where s: "rep = report_of U tweets rows s" "s \<in> set shown" by auto
    then have pos: "0 < accumulated sum_total_messages rows s" by (simp add: shown_def)
    have "\<bar>accumulated sum_positive_count rows s - accumulated sum_negative_count rows s\<bar>
            \<le> accumulated sum_total_messages rows s"
      using assms by (rule accumulated_bound)
    from score_in_range[OF this pos] s(1)
    show "- 1 \<le> sentimentScore rep \<and> sentimentScore rep \<le> 1"
      by (simp add: report_of_def)
  qed
  with run show ?thesis by blast
qed

text \<open>A summary row of Assam with total 2 and 2 negative messages.\<close>

theorem sentiment_score_range_witness:
  "\<bar>dict_get (sum_positive_count
        \<lparr>sum_region = Some (ascii ''Assam''), sum_total_messages = Some 2,
         sum_positive_count = Some 0, sum_negative_count = Some 2, sum_neutral_count = None\<rparr>) 0
     - dict_get (sum_negative_count
        \<lparr>sum_region = Some (ascii ''Assam''), sum_total_messages = Some 2,
         sum_positive_count = Some 0, sum_negative_count = Some 2, sum_neutral_count = None\<rparr>) 0\<bar>
     \<le> dict_get (sum_total_messages
        \<lparr>sum_region = Some (ascii ''Assam''), sum_total_messages = Some 2,
         sum_positive_count = Some 0, sum_negative_count = Some 2, sum_neutral_count = None\<rparr>) 0 \<and>
   get_states_summary keep_case ([] :: unit tweet_row list)
     [\<lparr>sum_region = Some (ascii ''Assam''), sum_total_messages = Some 2,
       sum_positive_count = Some 0, sum_negative_count = Some 2, sum_neutral_count = None\<rparr>]
   = Inr [\<lparr>state = ascii ''Assam'', sentimentScore = - 1, totalMessages = 2,
           transportBreakdown = \<lparr>tb_bus = 0, tb_metro = 0, tb_train = 0, tb_auto = 0, tb_taxi = 0\<rparr>,
           sentimentBreakdown = \<lparr>positive = 0, negative = 2, neutral = 0\<rparr>\<rparr>] \<and>
   - 1 \<le> sentimentScore
       \<lparr>state = ascii ''Assam'', sentimentScore = - 1, totalMessages = 2,
        transportBreakdown = \<lparr>tb_bus = 0, tb_metro = 0, tb_train = 0, tb_auto = 0, tb_taxi = 0\<rparr>,
        sentimentBreakdown = \<lparr>positive = 0, negative = 2, neutral = 0\<rparr>\<rparr> \<and>
   sentimentScore
       \<lparr>state = ascii ''Assam'', sentimentScore = - 1, totalMessages = 2,
        transportBreakdown = \<lparr>tb_bus = 0, tb_metro = 0, tb_train = 0, tb_auto = 0, tb_taxi = 0\<rparr>,
        sentimentBreakdown = \<lparr>positive = 0, negative = 2, neutral = 0\<rparr>\<rparr> \<le> 1"
proof -
  let ?row = "\<lparr>sum_region = Some (ascii ''Assam''), sum_total_messages = Some 2,
       sum_positive_count = Some 0, sum_negative_count = Some 2, sum_neutral_count = None\<rparr>"
  let ?rep = "\<lparr>state = ascii ''Assam'', sentimentScore = - 1, totalMessages = 2,
        transportBreakdown = \<lparr>tb_bus = 0, tb_metro = 0, tb_train = 0, tb_auto = 0, tb_taxi = 0\<rparr>,
        sentimentBreakdown = \<lparr>positive = 0, negative = 2, neutral = 0\<rparr>\<rparr>"
  have h1: "\<bar>dict_get (sum_positive_count ?row) 0 - dict_get (sum_negative_count ?row) 0\<bar>
      \<le> dict_get (sum_total_messages ?row) 0"
    by (simp add: dict_get_def)
  then have h: "\<forall>row\<in>set [?row].
      \<bar>dict_get (sum_positive_count row) 0 - dict_get (sum_negative_count row) 0\<bar>
        \<le> dict_get (sum_total_messages row) 0"
    by simp
  have run: "get_states_summary keep_case ([] :: unit tweet_row list) [?row] = Inr [?rep]"
    by (simp add: run_states_summary)
  from sentiment_score_range[OF h, of keep_case "[] :: unit tweet_row list"]
  have "- 1 \<le> sentimentScore ?rep \<and> sentimentScore ?rep \<le> 1"
    unfolding run by simp
  with h1 run show ?thesis by blast
qed

text \<open>
  Claim C6. The reports come in the order in which their states first appear: first
  the states of the records, in the order of the records, then the states that only
  summary rows have, in the order of the rows; states without a positive total are left
  out. The order is not one of name or score: with a record of Kerala and summary rows
  of Punjab, Assam and Kerala the reports are Kerala (0.25), Punjab (1), Assam (-0.5).
\<close>

theorem states_summary_order:
  "(\<exists>out. get_states_summary U tweets rows = Inr out \<and>
      map state out =
        filter (\<lambda>s. 0 < accumulated sum_total_messages rows s)
          (first_seen (map tweet_state tweets)) @
        filter (\<lambda>s. 0 < accumulated sum_total_messages rows s)
          (filter (\<lambda>s. s \<notin> set (map tweet_state tweets))
             (first_seen (map summary_state rows)))) \<and>
   get_states_summary U
     [\<lparr>row_id = Some 1, row_text = None, row_region = Some (ascii ''Kochi, Kerala''),
       row_sentiment = None, row_created_at = None\<rparr>]
     [\<lparr>sum_region = Some (ascii ''Punjab''), sum_total_messages = Some 2,
       sum_positive_count = Some 2, sum_negative_count = Some 0, sum_neutral_count = Some 0\<rparr>,
      \<lparr>sum_region = Some (ascii ''Assam''), sum_total_messages = Some 2,
       sum_positive_count = Some 0, sum_negative_count = Some 1, sum_neutral_count = Some 1\<rparr>,
      \<lparr>sum_region = Some (ascii ''Kerala''), sum_total_messages = Some 4,
       sum_positive_count = Some 1, sum_negative_count = Some 0, sum_neutral_count = Some 3\<rparr>]
   = Inr [\<lparr>state = ascii ''Kerala'', sentimentScore = 1 / 4, totalMessages = 4,
           transportBreakdown = \<lparr>tb_bus = 1, tb_metro = 0, tb_train = 0, tb_auto = 0, tb_taxi = 0\<rparr>,
           sentimentBreakdown = \<lparr>positive = 1, negative = 0, neutral = 3\<rparr>\<rparr>,
          \<lparr>state = ascii ''Punjab'', sentimentScore = 1, totalMessages = 2,
           transportBreakdown = \<lparr>tb_bus = 0, tb_metro = 0, tb_train = 0, tb_auto = 0, tb_taxi = 0\<rparr>,
           sentimentBreakdown = \<lparr>positive = 2, negative = 0, neutral = 0\<rparr>\<rparr>,
          \<lparr>state = ascii ''Assam'', sentimentScore = - (1 / 2), totalMessages = 2,
           transportBreakdown = \<lparr>tb_bus = 0, tb_metro = 0, tb_train = 0, tb_auto = 0, tb_taxi = 0\<rparr>,
           sentimentBreakdown = \<lparr>positive = 0, negative = 1, neutral = 1\<rparr>\<rparr>]"
proof (rule conjI)
  have "map state (map (report_of U tweets rows)
          (filter (\<lambda>s. 0 < accumulated sum_total_messages rows s)
             (first_seen (map tweet_state tweets @ map summary_state rows))))
      = filter (\<lambda>s. 0 < accumulated sum_total_messages rows s)
          (first_seen (map tweet_state tweets)) @
        filter (\<lambda>s. 0 < accumulated sum_total_messages rows s)
          (filter (\<lambda>s. s \<notin> set (map tweet_state tweets))
             (first_seen (map summary_state rows)))"
    by (simp only: map_state_report_of first_seen_append filter_append)
  then show "\<exists>out. get_states_summary U tweets rows = Inr out \<and>
      map state out =
        filter (\<lambda>s. 0 < accumulated sum_total_messages rows s)
          (first_seen (map tweet_state tweets)) @
        filter (\<lambda>s. 0 < accumulated sum_total_messages rows s)
          (filter (\<lambda>s. s \<notin> set (map tweet_state tweets))
             (first_seen (map summary_state rows)))"
    using get_states_summary_eq[of U tweets rows] by blast
next
  show "get_states_summary U
     [\<lparr>row_id = Some 1, row_text = None, row_region = Some (ascii ''Kochi, Kerala''),
       row_sentiment = None, row_created_at = None\<rparr>]
     [\<lparr>sum_region = Some (ascii ''Punjab''), sum_total_messages = Some 2,
       sum_positive_count = Some 2, sum_negative_count = Some 0, sum_neutral_count = Some 0\<rparr>,
      \<lparr>sum_region = Some (ascii ''Assam''), sum_total_messages = Some 2,
       sum_positive_count = Some 0, sum_negative_count = Some 1, sum_neutral_count = Some 1\<rparr>,
      \<lparr>sum_region = Some (ascii ''Kerala''), sum_total_messages = Some 4,
       sum_positive_count = Some 1, sum_negative_count = Some 0, sum_neutral_count = Some 3\<rparr>]
   = Inr [\<lparr>state = ascii ''Kerala'', sentimentScore = 1 / 4, totalMessages = 4,
           transportBreakdown = \<lparr>tb_bus = 1, tb_metro = 0, tb_train = 0, tb_auto = 0, tb_taxi = 0\<rparr>,
           sentimentBreakdown = \<lparr>positive = 1, negative = 0, neutral = 3\<rparr>\<rparr>,
          \<lparr>state = ascii ''Punjab'', sentimentScore = 1, totalMessages = 2,
           transportBreakdown = \<lparr>tb_bus = 0, tb_metro = 0, tb_train = 0, tb_auto = 0, tb_taxi = 0\<rparr>,
           sentimentBreakdown = \<lparr>positive = 2, negative = 0, neutral = 0\<rparr>\<rparr>,
          \<lparr>state = ascii ''Assam'', sentimentScore = - (1 / 2), totalMessages = 2,
           transportBreakdown = \<lparr>tb_bus = 0, tb_metro = 0, tb_train = 0, tb_auto = 0, tb_taxi = 0\<rparr>,
           sentimentBreakdown = \<lparr>positive = 0, negative = 1, neutral = 1\<rparr>\<rparr>]"
    by (simp add: run_states_summary)
qed

text \<open>
  Claim C9. Two runs of \<^verbatim>\<open>get_states_summary\<close> on the same records and the same
  summary rows return the same list of reports, in the same order: \<^verbatim>\<open>state_data\<close> is
  created in the call and the handler reads nothing but the two lists.
\<close>

theorem states_summary_same_inputs:
  assumes "tweets2 = tweets1" and "rows2 = rows1"
  shows "\<exists>out. get_states_summary U tweets1 rows1 = Inr out \<and>
           get_states_summary U tweets2 rows2 = Inr out"
  using assms get_states_summary_eq[of U tweets1 rows1] by blast

text \<open>One record and one summary row of Kerala.\<close>

theorem states_summary_same_inputs_witness:
  "[\<lparr>row_id = Some 1, row_text = None, row_region = Some (ascii ''Kochi, Kerala''),
      row_sentiment = None, row_created_at = (None :: unit option)\<rparr>]
   = [\<lparr>row_id = Some 1, row_text = None, row_region = Some (ascii ''Kochi, Kerala''),
      row_sentiment = None, row_created_at = None\<rparr>] \<and>
   [\<lparr>sum_region = Some (ascii ''Kerala''), sum_total_messages = Some 4,
      sum_positive_count = Some 1, sum_negative_count = Some 0, sum_neutral_count = Some 3\<rparr>]
   = [\<lparr>sum_region = Some (ascii ''Kerala''), sum_total_messages = Some 4,
      sum_positive_count = Some 1, sum_negative_count = Some 0, sum_neutral_count = Some 3\<rparr>] \<and>
   (\<exists>out. get_states_summary keep_case
       [\<lparr>row_id = Some 1, row_text = None, row_region = Some (ascii ''Kochi, Kerala''),
         row_sentiment = None, row_created_at = (None :: unit option)\<rparr>]
       [\<lparr>sum_region = Some (ascii ''Kerala''), sum_total_messages = Some 4,
         sum_positive_count = Some 1, sum_negative_count = Some 0, sum_neutral_count = Some 3\<rparr>]
       = Inr out)"
  using states_summary_same_inputs[OF refl refl, of keep_case
      "[\<lparr>row_id = Some 1, row_text = None, row_region = Some (ascii ''Kochi, Kerala''),
         row_sentiment = None, row_created_at = (None :: unit option)\<rparr>]"
      "[\<lparr>sum_region = Some (ascii ''Kerala''), sum_total_messages = Some 4,
         sum_positive_count = Some 1, sum_negative_count = Some 0, sum_neutral_count = Some 3\<rparr>]"]
  by blast

lemma tweet_state_fill: "tweet_state (fill_tweet tweet) = tweet_state tweet"
  by (simp add: tweet_state_def fill_tweet_def dict_get_def)

lemma summary_state_fill: "summary_state (fill_summary row) = summary_state row"
  by (simp add: summary_state_def fill_summary_def dict_get_def)

lemma count_tweet_fill: "count_tweet U sd (fill_tweet tweet) = count_tweet U sd tweet"
  by (simp add: count_tweet_Inr tweet_state_def fill_tweet_def dict_get_def)

lemma add_counts_fill: "add_counts (fill_summary row) = add_counts row"
  by (rule ext) (simp add: add_counts_def fill_summary_def dict_get_def)

lemma add_summary_fill: "add_summary sd (fill_summary row) = add_summary sd row"
  by (simp add: add_summary_Inr summary_state_fill add_counts_fill)

lemma for_each_map:
  "(\<And>s x. body s (f x) = body s x) \<Longrightarrow> for_each body s (map f xs) = for_each body s xs"
  by (induction xs arbitrary: s) (simp_all split: sum.splits)

lemma region_state_Unknown: "region_state (ascii ''Unknown'') = ascii ''Unknown''"
  by (simp add: region_state_def extract_state_from_region_def ascii_def str_strip_def
      is_space_def)

text \<open>
  Claim C10. \<^verbatim>\<open>get_states_summary\<close> returns a list of reports for all records and
  rows, whatever fields they miss. The result is the one for the records and rows with
  the missing fields filled in: region "Unknown" (not "India"), text empty, counts 0.
  A record without text is classified bus, and the bus count of a report is the number
  of records of its state classified bus. A record without any field and a row with
  only a total of 3 give one report, for "Unknown", with one bus.
\<close>

theorem states_summary_missing_fields:
  "(\<exists>out. get_states_summary U tweets rows = Inr out \<and>
      (\<forall>rep\<in>set out.
         tb_bus (transportBreakdown rep) = transport_count U tweets (state rep) Bus \<and>
         totalMessages rep = accumulated sum_total_messages rows (state rep) \<and>
         positive (sentimentBreakdown rep) = accumulated sum_positive_count rows (state rep) \<and>
         negative (sentimentBreakdown rep) = accumulated sum_negative_count rows (state rep) \<and>
         neutral (sentimentBreakdown rep) = accumulated sum_neutral_count rows (state rep))) \<and>
   get_states_summary U (map fill_tweet tweets) (map fill_summary rows)
     = get_states_summary U tweets rows \<and>
   (\<forall>tweet :: 't tweet_row. row_region tweet = None \<longrightarrow> tweet_state tweet = ascii ''Unknown'') \<and>
   (\<forall>row. sum_region row = None \<longrightarrow> summary_state row = ascii ''Unknown'') \<and>
   ascii ''Unknown'' \<noteq> ascii ''India'' \<and>
   (\<forall>tweet :: 't tweet_row. row_text tweet = None \<longrightarrow>
      determine_transport_type U (dict_get (row_text tweet) []) = Bus) \<and>
   get_states_summary U
     [\<lparr>row_id = None, row_text = None, row_region = None, row_sentiment = None,
       row_created_at = None\<rparr>]
     [\<lparr>sum_region = None, sum_total_messages = Some 3, sum_positive_count = None,
       sum_negative_count = None, sum_neutral_count = None\<rparr>]
   = Inr [\<lparr>state = ascii ''Unknown'', sentimentScore = 0, totalMessages = 3,
           transportBreakdown = \<lparr>tb_bus = 1, tb_metro = 0, tb_train = 0, tb_auto = 0, tb_taxi = 0\<rparr>,
           sentimentBreakdown = \<lparr>positive = 0, negative = 0, neutral = 0\<rparr>\<rparr>]"
proof (intro conjI allI impI)
  define shown where "shown = filter (\<lambda>s. 0 < accumulated sum_total_messages rows s)
      (first_seen (map tweet_state tweets @ map summary_state rows))"
  have run: "get_states_summary U tweets rows = Inr (map (report_of U tweets rows) shown)"
    by (simp add: get_states_summary_eq shown_def)
  have "\<forall>rep\<in>set (map (report_of U tweets rows) shown).
         tb_bus (transportBreakdown rep) = transport_count U tweets (state rep) Bus \<and>
         totalMessages rep = accumulated sum_total_messages rows (state rep) \<and>
         positive (sentimentBreakdown rep) = accumulated sum_positive_count rows (state rep) \<and>
         negative (sentimentBreakdown rep) = accumulated sum_negative_count rows (state rep) \<and>
         neutral (sentimentBreakdown rep) = accumulated sum_neutral_count rows (state rep)"
    by (auto simp: report_of_def)
  with run show "\<exists>out. get_states_summary U tweets rows = Inr out \<and>
      (\<forall>rep\<in>set out.
         tb_bus (transportBreakdown rep) = transport_count U tweets (state rep) Bus \<and>
         totalMessages rep = accumulated sum_total_messages rows (state rep) \<and>
         positive (sentimentBreakdown rep) = accumulated sum_positive_count rows (state rep) \<and>
         negative (sentimentBreakdown rep) = accumulated sum_negative_count rows (state rep) \<and>
         neutral (sentimentBreakdown rep) = accumulated sum_neutral_count rows (state rep))"
    by blast
next
  have 1: "for_each (count_tweet U) [] (map fill_tweet tweets) = for_each (count_tweet U) [] tweets"
    by (rule for_each_map) (rule count_tweet_fill)
  have 2: "\<And>sd. for_each add_summary sd (map fill_summary rows) = for_each add_summary sd rows"
    by (rule for_each_map) (rule add_summary_fill)
  show "get_states_summary U (map fill_tweet tweets) (map fill_summary rows)
     = get_states_summary U tweets rows"
    by (simp add: get_states_summary_def 1 2 cong: sum.case_cong)
next
  fix tweet :: "'t tweet_row"
  assume "row_region tweet = None"
  then show "tweet_state tweet = ascii ''Unknown''"
    by (simp add: tweet_state_def dict_get_def region_state_Unknown)
next
  fix row :: summary_row
  assume "sum_region row = None"
  then show "summary_state row = ascii ''Unknown''"
    by (simp add: summary_state_def dict_get_def region_state_Unknown)
next
  show "ascii ''Unknown'' \<noteq> ascii ''India''"
    by (simp add: ascii_def)
next
  fix tweet :: "'t tweet_row"
  assume "row_text tweet = None"
  then show "determine_transport_type U (dict_get (row_text tweet) []) = Bus"
    by (simp add: determine_transport_type_def str_lower_def any_keyword_in_def
        metro_keywords_def train_keywords_def auto_keywords_def taxi_keywords_def ascii_def
        dict_get_def)
next
  show "get_states_summary U
     [\<lparr>row_id = None, row_text = None, row_region = None, row_sentiment = None,
       row_created_at = None\<rparr>]
     [\<lparr>sum_region = None, sum_total_messages = Some 3, sum_positive_count = None,
       sum_negative_count = None, sum_neutral_count = None\<rparr>]
   = Inr [\<lparr>state = ascii ''Unknown'', sentimentScore = 0, totalMessages = 3,
           transportBreakdown = \<lparr>tb_bus = 1, tb_metro = 0, tb_train = 0, tb_auto = 0, tb_taxi = 0\<rparr>,
           sentimentBreakdown = \<lparr>positive = 0, negative = 0, neutral = 0\<rparr>\<rparr>]"
    by (simp add: run_states_summary)
qed

text \<open>A record without region and text, and a summary row without region.\<close>

theorem states_summary_missing_fields_witness:
  "row_region \<lparr>row_id = Some 4, row_text = None, row_region = None,
      row_sentiment = Some (ascii ''positive''), row_created_at = Some (5::nat)\<rparr> = None \<and>
   tweet_state \<lparr>row_id = Some 4, row_text = None, row_region = None,
      row_sentiment = Some (ascii ''positive''), row_created_at = Some (5::nat)\<rparr>
     = ascii ''Unknown'' \<and>
   row_text \<lparr>row_id = Some 4, row_text = None, row_region = None,
      row_sentiment = Some (ascii ''positive''), row_created_at = Some (5::nat)\<rparr> = None \<and>
   determine_transport_type keep_case
     (dict_get (row_text \<lparr>row_id = Some 4, row_text = None, row_region = None,
        row_sentiment = Some (ascii ''positive''), row_created_at = Some (5::nat)\<rparr>) []) = Bus \<and>
   sum_region \<lparr>sum_region = None, sum_total_messages = None, sum_positive_count = Some 1,
      sum_negative_count = None, sum_neutral_count = None\<rparr> = None \<and>
   summary_state \<lparr>sum_region = None, sum_total_messages = None, sum_positive_count = Some 1,
      sum_negative_count = None, sum_neutral_count = None\<rparr> = ascii ''Unknown''"
proof -
  have 1: "row_region \<lparr>row_id = Some 4, row_text = None, row_region = None,
      row_sentiment = Some (ascii ''positive''), row_created_at = Some (5::nat)\<rparr> = None"
    by simp
  have 2: "row_text \<lparr>row_id = Some 4, row_text = None, row_region = None,
      row_sentiment = Some (ascii ''positive''), row_created_at = Some (5::nat)\<rparr> = None"
    by simp
  have 3: "sum_region \<lparr>sum_region = None, sum_total_messages = None, sum_positive_count = Some 1,
      sum_negative_count = None, sum_neutral_count = None\<rparr> = None"
    by simp
  from states_summary_missing_fields[of keep_case "[] :: nat tweet_row list" "[]"] 1 2 3
  show ?thesis by blast
qed

end
